theory Spec2Isabelle
  imports Complex_Main "HOL-Library.Word"
begin

section \<open>Exceptions and method outcomes\<close>

text \<open>
  The module \<^verbatim>\<open>pyne/simplesim/cards.py\<close> raises only built-in Python 2 exceptions.
  An exception is modelled by its class together with a tag naming the \<^verbatim>\<open>raise\<close>
  statement (or the interpreter check) it comes from, which stands for the message text.
\<close>

datatype message =
    UniqueNameReadOnly        \<comment> \<open>\<^verbatim>\<open>ICard.name\<close> setter, "This is a unique card, ..."\<close>
  | EmptyName                 \<comment> \<open>\<^verbatim>\<open>ICard.name\<close> setter, "... cannot be empty."\<close>
  | EmptyMaterialName         \<comment> \<open>\<^verbatim>\<open>Cell.material\<close> setter\<close>
  | BadDensityUnits           \<comment> \<open>\<^verbatim>\<open>Cell.density_units\<close> setter\<close>
  | ReflectingAndWhite        \<comment> \<open>\<^verbatim>\<open>ISurface.__init__\<close>\<close>
  | BadCartesianAxis          \<comment> \<open>\<^verbatim>\<open>IAxisSurface.cartesian_axis\<close> setter\<close>
  | CylinderShiftOffAxis      \<comment> \<open>\<^verbatim>\<open>AxisCylinder.shift\<close>\<close>
  | CylinderStretchNotUniform \<comment> \<open>\<^verbatim>\<open>AxisCylinder.stretch\<close>\<close>
  | RadiusNotPositive         \<comment> \<open>\<^verbatim>\<open>AxisCylinder.radius\<close> setter\<close>
  | XminGreaterThanXmax       \<comment> \<open>\<^verbatim>\<open>Parallelepiped.xlims\<close> setter\<close>
  | YminGreaterThanYmax       \<comment> \<open>\<^verbatim>\<open>Parallelepiped.ylims\<close> setter\<close>
  | ZminGreaterThanZmax       \<comment> \<open>\<^verbatim>\<open>Parallelepiped.zlims\<close> setter\<close>
  | GlobalNameNotDefined string \<comment> \<open>the interpreter: a name bound nowhere\<close>
  | IsinstanceArg2            \<comment> \<open>the interpreter: \<^verbatim>\<open>isinstance\<close> given a non-class\<close>
  | CannotCastOutput          \<comment> \<open>numpy: "Cannot cast ufunc ... output from dtype('float64') to dtype('int64')"\<close>

datatype exn =
    StandardError message
  | ValueError message
  | TypeError message
  | NameError message

text \<open>
  A method mutates its receiver and may raise.  Its model takes the receiver and returns
  the exception raised, if any, together with the receiver as the call leaves it, so that
  a write made before a \<^verbatim>\<open>raise\<close> stays visible.  A constructor either raises or
  yields the new object.
\<close>

type_synonym 's outcome = "exn option \<times> 's"

definition and_then :: "('s \<Rightarrow> 's outcome) \<Rightarrow> ('s \<Rightarrow> 's outcome) \<Rightarrow> 's \<Rightarrow> 's outcome" where
  "and_then f g s = (case f s of (Some e, s') \<Rightarrow> (Some e, s') | (None, s') \<Rightarrow> g s')"

section \<open>ICard\<close>

text \<open>The two attributes \<^verbatim>\<open>_name\<close> and \<^verbatim>\<open>_unique\<close> of every card.\<close>

record ICard =
  name :: string
  unique :: bool

text \<open>
  \<^verbatim>\<open>
  @name.setter
  def name(self, value):
      if self._unique:
          raise StandardError("This is a unique card, ...")
      if value == '':
          raise ValueError("The ``name`` property of the cell cannot be empty.")
      self._name = value
  \<close>
\<close>

definition name_setter :: "string \<Rightarrow> 'a ICard_scheme \<Rightarrow> 'a ICard_scheme outcome" where
  "name_setter value self =
     (if unique self then (Some (StandardError UniqueNameReadOnly), self)
      else if value = [] then (Some (ValueError EmptyName), self)
      else (None, self\<lparr>name := value\<rparr>))"

text \<open>
  \<^verbatim>\<open>
  def __init__(self, name, unique=False):
      self._unique = unique
      if self._unique:
          self._name = name
      else:
          self.name = name
  \<close>
  An \<^verbatim>\<open>__init__\<close> method is modelled on the fresh object \<open>self\<close> it receives.  The
  attributes of a fresh object are not set yet; its record carries placeholders in those
  fields, and every \<^verbatim>\<open>__init__\<close> below writes a field before anything reads it.  An
  exception leaves the constructor without an object.
\<close>

definition ICard_init :: "string \<Rightarrow> bool \<Rightarrow> 'a ICard_scheme \<Rightarrow> exn + 'a ICard_scheme" where
  "ICard_init nm uniq self0 =
     (let self = self0\<lparr>unique := uniq\<rparr> in
      if unique self then Inr (self\<lparr>name := nm\<rparr>)
      else (case name_setter nm self of
              (Some e, _) \<Rightarrow> Inl e
            | (None, self') \<Rightarrow> Inr self'))"

section \<open>Surfaces\<close>

text \<open>
  The radius of a cylinder and the position of a plane are plain Python numbers, and the
  methods of these two classes only compare, add and multiply them.  There a number is
  modelled by its value, a real, so the arithmetic is exact (no rounding, no overflow to
  infinity, no NaN), and \<open>vector\<close> gives the values of the three components the
  methods index with 0, 1 and 2.
\<close>

type_synonym vector = "real \<times> real \<times> real"

subsection \<open>ISurface\<close>

text \<open>
  The flags \<^verbatim>\<open>reflecting\<close> and \<^verbatim>\<open>white\<close> hold \<^verbatim>\<open>None\<close>, \<^verbatim>\<open>True\<close> or
  \<^verbatim>\<open>False\<close>: their setters raise \<^verbatim>\<open>TypeError\<close> for any other value, which the type
  \<open>bool option\<close> leaves out.
\<close>

record ISurface = ICard +
  reflecting :: "bool option"
  white :: "bool option"

text \<open>Python truth of a flag: \<^verbatim>\<open>None\<close> and \<^verbatim>\<open>False\<close> are false.\<close>

definition truthy :: "bool option \<Rightarrow> bool" where
  "truthy flag = (flag = Some True)"

text \<open>
  \<^verbatim>\<open>
  @reflecting.setter
  def reflecting(self, value):
      if value is not None and type(value) is not bool:
          raise TypeError(...)
      self._reflecting = value
  \<close>
  and the same for \<^verbatim>\<open>white\<close>.
\<close>

definition reflecting_setter :: "bool option \<Rightarrow> 'a ISurface_scheme \<Rightarrow> 'a ISurface_scheme outcome" where
  "reflecting_setter value self = (None, self\<lparr>reflecting := value\<rparr>)"

definition white_setter :: "bool option \<Rightarrow> 'a ISurface_scheme \<Rightarrow> 'a ISurface_scheme outcome" where
  "white_setter value self = (None, self\<lparr>white := value\<rparr>)"

text \<open>
  \<^verbatim>\<open>
  def __init__(self, name, reflecting, white, *args, **kwargs):
      super(ISurface, self).__init__(name, *args, **kwargs)
      self.reflecting = reflecting
      self.white = white
      if self.reflecting and self.white:
          raise ValueError("The user set the surface to be reflecting AND white, ...")
  \<close>
  No surface class passes extra arguments, so \<^verbatim>\<open>unique\<close> keeps its default.
\<close>

definition ISurface_init ::
  "string \<Rightarrow> bool option \<Rightarrow> bool option \<Rightarrow> 'a ISurface_scheme \<Rightarrow> exn + 'a ISurface_scheme" where
  "ISurface_init nm rfl wh self0 =
     (case ICard_init nm False self0 of
        Inl e \<Rightarrow> Inl e
      | Inr self1 \<Rightarrow>
          (case and_then (reflecting_setter rfl) (white_setter wh) self1 of
             (Some e, _) \<Rightarrow> Inl e
           | (None, self) \<Rightarrow>
               if truthy (reflecting self) \<and> truthy (white self)
               then Inl (ValueError ReflectingAndWhite)
               else Inr self))"

subsection \<open>IAxisSurface\<close>

text \<open>
  The setter of \<^verbatim>\<open>cartesian_axis\<close> accepts the strings x, X, y, Y, z, Z and stores the
  lower-case letter; \<open>axis\<close> is the stored letter.
\<close>

datatype axis = X | Y | Z

record IAxisSurface = ISurface +
  cartesian_axis :: axis

definition lower_axis :: "string \<Rightarrow> axis option" where
  "lower_axis value =
     (if value = ''x'' \<or> value = ''X'' then Some X
      else if value = ''y'' \<or> value = ''Y'' then Some Y
      else if value = ''z'' \<or> value = ''Z'' then Some Z
      else None)"

definition cartesian_axis_setter ::
  "string \<Rightarrow> 'a IAxisSurface_scheme \<Rightarrow> 'a IAxisSurface_scheme outcome" where
  "cartesian_axis_setter value self =
     (case lower_axis value of
        None \<Rightarrow> (Some (ValueError BadCartesianAxis), self)
      | Some a \<Rightarrow> (None, self\<lparr>cartesian_axis := a\<rparr>))"

definition IAxisSurface_init ::
  "string \<Rightarrow> string \<Rightarrow> bool option \<Rightarrow> bool option \<Rightarrow> 'a IAxisSurface_scheme
     \<Rightarrow> exn + 'a IAxisSurface_scheme" where
  "IAxisSurface_init nm ax rfl wh self0 =
     (case ISurface_init nm rfl wh self0 of
        Inl e \<Rightarrow> Inl e
      | Inr self1 \<Rightarrow>
          (case cartesian_axis_setter ax self1 of
             (Some e, _) \<Rightarrow> Inl e
           | (None, self) \<Rightarrow> Inr self))"

subsection \<open>AxisCylinder\<close>

record AxisCylinder = IAxisSurface +
  radius :: real

text \<open>
  \<^verbatim>\<open>
  @radius.setter
  def radius(self, value):
      if value <= 0:
          raise ValueError("The ``radius`` property must be positive. ...")
      self._radius = value
  \<close>
\<close>

definition radius_setter :: "real \<Rightarrow> 'a AxisCylinder_scheme \<Rightarrow> 'a AxisCylinder_scheme outcome" where
  "radius_setter value self =
     (if value \<le> 0 then (Some (ValueError RadiusNotPositive), self)
      else (None, self\<lparr>radius := value\<rparr>))"

definition AxisCylinder_init ::
  "string \<Rightarrow> string \<Rightarrow> real \<Rightarrow> bool option \<Rightarrow> bool option \<Rightarrow> AxisCylinder \<Rightarrow> exn + AxisCylinder" where
  "AxisCylinder_init nm ax r rfl wh self0 =
     (case IAxisSurface_init nm ax rfl wh self0 of
        Inl e \<Rightarrow> Inl e
      | Inr self1 \<Rightarrow>
          (case radius_setter r self1 of
             (Some e, _) \<Rightarrow> Inl e
           | (None, self) \<Rightarrow> Inr self))"

text \<open>The fresh object \<^verbatim>\<open>AxisCylinder(...)\<close> hands to \<^verbatim>\<open>__init__\<close>.\<close>

definition fresh_AxisCylinder :: AxisCylinder where
  "fresh_AxisCylinder =
     \<lparr>name = [], unique = False, reflecting = None, white = None, cartesian_axis = X, radius = 0\<rparr>"

text \<open>\<^verbatim>\<open>AxisCylinder(name, cartesian_axis, radius, reflecting=None, white=None)\<close>\<close>

definition new_AxisCylinder ::
  "string \<Rightarrow> string \<Rightarrow> real \<Rightarrow> bool option \<Rightarrow> bool option \<Rightarrow> exn + AxisCylinder" where
  "new_AxisCylinder nm ax r rfl wh = AxisCylinder_init nm ax r rfl wh fresh_AxisCylinder"

text \<open>
  \<^verbatim>\<open>
  def shift(self, vector):
      iserror = False
      if self.cartesian_axis == 'x' and (vector[1] != 0 or vector[2] != 0):
          iserror = True
          dirs = ('x', 'y', 'z')
      if self.cartesian_axis == 'y' and (vector[0] != 0 or vector[2] != 0):
          iserror = True
          dirs = ('y', 'x', 'z')
      if self.cartesian_axis == 'z' and (vector[0] != 0 or vector[1] != 0):
          iserror = True
          dirs = ('z', 'x', 'y')
      if iserror:
          raise ValueError("A cylinder aligned with the %s axis cannot "
                  "be shifted in the %s or %s directions." % dirs)
  \<close>
\<close>

fun AxisCylinder_shift :: "vector \<Rightarrow> 'a AxisCylinder_scheme \<Rightarrow> 'a AxisCylinder_scheme outcome" where
  "AxisCylinder_shift (v0, v1, v2) self =
     (let iserror = False;
          iserror = (if cartesian_axis self = X \<and> (v1 \<noteq> 0 \<or> v2 \<noteq> 0) then True else iserror);
          iserror = (if cartesian_axis self = Y \<and> (v0 \<noteq> 0 \<or> v2 \<noteq> 0) then True else iserror);
          iserror = (if cartesian_axis self = Z \<and> (v0 \<noteq> 0 \<or> v1 \<noteq> 0) then True else iserror)
      in if iserror then (Some (ValueError CylinderShiftOffAxis), self) else (None, self))"

text \<open>
  \<^verbatim>\<open>
  def stretch(self, vector):
      iserror = False
      if self.cartesian_axis == 'x':
          if vector[1] != vector[2]:
              iserror = True
              out = ('y', vector[1], 'z', vector[2], 'x')
          elif vector[1] != 0:
              self.radius *= vector[1]
      if self.cartesian_axis == 'y':
          if vector[0] != vector[2]:
              iserror = True
              out = ('x', vector[0], 'z', vector[2], 'y')
          elif vector[0] != 0:
              self.radius *= vector[0]
      if self.cartesian_axis == 'z':
          if vector[0] != vector[1]:
              iserror = True
              out = ('x', vector[0], 'y', vector[1], 'z')
          elif vector[0] != 0:
              self.radius *= vector[0]
      if iserror:
          raise ValueError("Stretches perpendicular to the axis must be uniform ...")
  \<close>
  Each of the three blocks has the shape of \<open>stretch_block\<close>, on the flag and the
  receiver: \<^verbatim>\<open>self.radius *= a\<close> reads the radius, multiplies, and assigns through the
  setter, whose exception ends the call at once.
\<close>

definition stretch_block ::
  "real \<Rightarrow> real \<Rightarrow> bool \<times> 'a AxisCylinder_scheme \<Rightarrow> (bool \<times> 'a AxisCylinder_scheme) outcome" where
  "stretch_block a b st =
     (case st of (iserror, self) \<Rightarrow>
        if a \<noteq> b then (None, (True, self))
        else if a \<noteq> 0 then
          (case radius_setter (radius self * a) self of (e, self') \<Rightarrow> (e, (iserror, self')))
        else (None, (iserror, self)))"

fun AxisCylinder_stretch :: "vector \<Rightarrow> 'a AxisCylinder_scheme \<Rightarrow> 'a AxisCylinder_scheme outcome" where
  "AxisCylinder_stretch (v0, v1, v2) self =
     (case and_then
             (\<lambda>st. if cartesian_axis (snd st) = X then stretch_block v1 v2 st else (None, st))
          (and_then
             (\<lambda>st. if cartesian_axis (snd st) = Y then stretch_block v0 v2 st else (None, st))
             (\<lambda>st. if cartesian_axis (snd st) = Z then stretch_block v0 v1 st else (None, st)))
          (False, self) of
        (Some e, (_, self')) \<Rightarrow> (Some e, self')
      | (None, (iserror, self')) \<Rightarrow>
          if iserror then (Some (ValueError CylinderStretchNotUniform), self')
          else (None, self'))"

subsection \<open>AxisPlane\<close>

record AxisPlane = IAxisSurface +
  position :: real

text \<open>The setter of \<^verbatim>\<open>position\<close> stores any value.\<close>

definition position_setter :: "real \<Rightarrow> 'a AxisPlane_scheme \<Rightarrow> 'a AxisPlane_scheme outcome" where
  "position_setter value self = (None, self\<lparr>position := value\<rparr>)"

definition AxisPlane_init ::
  "string \<Rightarrow> string \<Rightarrow> real \<Rightarrow> bool option \<Rightarrow> bool option \<Rightarrow> AxisPlane \<Rightarrow> exn + AxisPlane" where
  "AxisPlane_init nm ax pos rfl wh self0 =
     (case IAxisSurface_init nm ax rfl wh self0 of
        Inl e \<Rightarrow> Inl e
      | Inr self1 \<Rightarrow>
          (case position_setter pos self1 of
             (Some e, _) \<Rightarrow> Inl e
           | (None, self) \<Rightarrow> Inr self))"

definition fresh_AxisPlane :: AxisPlane where
  "fresh_AxisPlane =
     \<lparr>name = [], unique = False, reflecting = None, white = None, cartesian_axis = X, position = 0\<rparr>"

text \<open>\<^verbatim>\<open>AxisPlane(name, cartesian_axis, position, reflecting=None, white=None)\<close>\<close>

definition new_AxisPlane ::
  "string \<Rightarrow> string \<Rightarrow> real \<Rightarrow> bool option \<Rightarrow> bool option \<Rightarrow> exn + AxisPlane" where
  "new_AxisPlane nm ax pos rfl wh = AxisPlane_init nm ax pos rfl wh fresh_AxisPlane"

text \<open>
  \<^verbatim>\<open>
  def shift(self, vector):
      if self.cartesian_axis == 'x':
          self.position += vector[0]
      elif self.cartesian_axis == 'y':
          self.position += vector[1]
      elif self.cartesian_axis == 'z':
          self.position += vector[2]

  def stretch(self, vector):
      if self.cartesian_axis == 'x' and vector[0] != 0:
          self.position *= vector[0]
      elif self.cartesian_axis == 'y' and vector[1] != 0:
          self.position *= vector[1]
      elif self.cartesian_axis == 'z' and vector[2] != 0:
          self.position *= vector[2]
  \<close>
\<close>

fun AxisPlane_shift :: "vector \<Rightarrow> 'a AxisPlane_scheme \<Rightarrow> 'a AxisPlane_scheme outcome" where
  "AxisPlane_shift (v0, v1, v2) self =
     (if cartesian_axis self = X then position_setter (position self + v0) self
      else if cartesian_axis self = Y then position_setter (position self + v1) self
      else if cartesian_axis self = Z then position_setter (position self + v2) self
      else (None, self))"

fun AxisPlane_stretch :: "vector \<Rightarrow> 'a AxisPlane_scheme \<Rightarrow> 'a AxisPlane_scheme outcome" where
  "AxisPlane_stretch (v0, v1, v2) self =
     (if cartesian_axis self = X \<and> v0 \<noteq> 0 then position_setter (position self * v0) self
      else if cartesian_axis self = Y \<and> v1 \<noteq> 0 then position_setter (position self * v1) self
      else if cartesian_axis self = Z \<and> v2 \<noteq> 0 then position_setter (position self * v2) self
      else (None, self))"

subsection \<open>Python numbers and numpy arrays\<close>

text \<open>
  The limits of a parallelepiped are numpy arrays, and what an operation on an array does
  depends on the element type of the array and on whether the other operand is an int or
  a float.  A Python number is therefore an int or a float.  An int is taken in the range
  of a 64-bit signed integer and given by its two's-complement word: these are the ints
  numpy stores in an \<^verbatim>\<open>int64\<close> array (where the C long has 64 bits); larger ints are
  outside the model.  A float is modelled as a real, so float arithmetic is exact.
\<close>

datatype number = PyInt "64 word" | PyFloat real

fun num_val :: "number \<Rightarrow> real" where
  "num_val (PyInt k) = real_of_int (sint k)"
| "num_val (PyFloat x) = x"

text \<open>The vector a caller passes, and the values of its components.\<close>

type_synonym pyvector = "number \<times> number \<times> number"

fun values_of :: "pyvector \<Rightarrow> vector" where
  "values_of (v0, v1, v2) = (num_val v0, num_val v1, num_val v2)"

text \<open>
  A two-element array, with its element type.  \<^verbatim>\<open>np.array([lo, hi])\<close> is an
  \<^verbatim>\<open>int64\<close> array when both numbers are ints and a \<^verbatim>\<open>float64\<close> array otherwise.
\<close>

datatype ndarray = Int64Array "64 word" "64 word" | Float64Array real real

fun array_values :: "ndarray \<Rightarrow> real \<times> real" where
  "array_values (Int64Array a b) = (real_of_int (sint a), real_of_int (sint b))"
| "array_values (Float64Array a b) = (a, b)"

fun np_array :: "number \<Rightarrow> number \<Rightarrow> ndarray" where
  "np_array (PyInt a) (PyInt b) = Int64Array a b"
| "np_array lo hi = Float64Array (num_val lo) (num_val hi)"

text \<open>
  The in-place operations \<^verbatim>\<open>a *= s\<close> and \<^verbatim>\<open>a += s\<close> keep the element type of \<open>a\<close>.
  On an \<^verbatim>\<open>int64\<close> array an int operand gives 64-bit arithmetic, which wraps around.
  A float operand gives a \<^verbatim>\<open>float64\<close> result that has to be stored into the
  \<^verbatim>\<open>int64\<close> array, and numpy's casting rule decides: under \<^verbatim>\<open>same_kind\<close> (numpy 1.10
  and later) the operation raises \<^verbatim>\<open>TypeError\<close> and the array is untouched; under
  \<^verbatim>\<open>unsafe\<close> (earlier versions) each element is converted by C's conversion of a
  double to a 64-bit integer.  The rule, with that conversion, is a parameter of the
  model; \<open>c_truncate\<close> is the conversion inside the range of the integer type, where
  it drops the fraction.
\<close>

datatype casting = SameKind | Unsafe "real \<Rightarrow> 64 word"

definition c_truncate :: "real \<Rightarrow> 64 word" where
  "c_truncate x = word_of_int (if 0 \<le> x then \<lfloor>x\<rfloor> else \<lceil>x\<rceil>)"

fun inplace_times :: "casting \<Rightarrow> ndarray \<Rightarrow> number \<Rightarrow> exn + ndarray" where
  "inplace_times np (Float64Array a b) s = Inr (Float64Array (a * num_val s) (b * num_val s))"
| "inplace_times np (Int64Array a b) (PyInt k) = Inr (Int64Array (a * k) (b * k))"
| "inplace_times SameKind (Int64Array a b) (PyFloat x) = Inl (TypeError CannotCastOutput)"
| "inplace_times (Unsafe conv) (Int64Array a b) (PyFloat x) =
     Inr (Int64Array (conv (real_of_int (sint a) * x)) (conv (real_of_int (sint b) * x)))"

fun inplace_plus :: "casting \<Rightarrow> ndarray \<Rightarrow> number \<Rightarrow> exn + ndarray" where
  "inplace_plus np (Float64Array a b) s = Inr (Float64Array (a + num_val s) (b + num_val s))"
| "inplace_plus np (Int64Array a b) (PyInt k) = Inr (Int64Array (a + k) (b + k))"
| "inplace_plus SameKind (Int64Array a b) (PyFloat x) = Inl (TypeError CannotCastOutput)"
| "inplace_plus (Unsafe conv) (Int64Array a b) (PyFloat x) =
     Inr (Int64Array (conv (real_of_int (sint a) + x)) (conv (real_of_int (sint b) + x)))"

text \<open>
  The product \<^verbatim>\<open>s * a\<close> is a new array: \<^verbatim>\<open>int64\<close> for an int and an \<^verbatim>\<open>int64\<close>
  array, \<^verbatim>\<open>float64\<close> otherwise.  \<^verbatim>\<open>a[::-1]\<close> reads the array in reverse, and
  \<^verbatim>\<open>value[0] > value[1]\<close> compares the two elements.
\<close>

fun scalar_times :: "number \<Rightarrow> ndarray \<Rightarrow> ndarray" where
  "scalar_times s (Float64Array a b) = Float64Array (num_val s * a) (num_val s * b)"
| "scalar_times (PyInt k) (Int64Array a b) = Int64Array (k * a) (k * b)"
| "scalar_times (PyFloat x) (Int64Array a b) =
     Float64Array (x * real_of_int (sint a)) (x * real_of_int (sint b))"

fun reversed :: "ndarray \<Rightarrow> ndarray" where
  "reversed (Int64Array a b) = Int64Array b a"
| "reversed (Float64Array a b) = Float64Array b a"

fun first_exceeds_second :: "ndarray \<Rightarrow> bool" where
  "first_exceeds_second (Int64Array a b) = (sint a > sint b)"
| "first_exceeds_second (Float64Array a b) = (a > b)"

text \<open>
  An object holds an array by reference, and two attributes, of one object or of several,
  may hold the same array.  The array heap gives the array at each address; addresses
  from \<open>next_ref\<close> on are unused, and creating an array takes the first of them.
\<close>

type_synonym aref = nat

record array_heap =
  cells :: "aref \<Rightarrow> ndarray"
  next_ref :: aref

definition alloc :: "ndarray \<Rightarrow> array_heap \<Rightarrow> aref \<times> array_heap" where
  "alloc a m = (next_ref m, m\<lparr>cells := (cells m)(next_ref m := a), next_ref := Suc (next_ref m)\<rparr>)"

subsection \<open>Parallelepiped\<close>

text \<open>
  Each of \<^verbatim>\<open>xlims\<close>, \<^verbatim>\<open>ylims\<close>, \<^verbatim>\<open>zlims\<close> refers to a two-element array
  \<^verbatim>\<open>[min, max]\<close>.  The methods of the class act on the array heap and the object.
\<close>

record Parallelepiped = ISurface +
  xlims :: aref
  ylims :: aref
  zlims :: aref

text \<open>
  \<^verbatim>\<open>
  @xlims.setter
  def xlims(self, value):
      if value[0] > value[1]:
          raise ValueError("The value of xmin, %.4f, is greater than that of xmax, %.4f." ...)
      self._xlims = value
  \<close>
  and the same for \<^verbatim>\<open>ylims\<close> and \<^verbatim>\<open>zlims\<close>.  The value is a reference to an array.
\<close>

definition xlims_setter ::
  "aref \<Rightarrow> array_heap \<times> 'a Parallelepiped_scheme
     \<Rightarrow> (array_heap \<times> 'a Parallelepiped_scheme) outcome" where
  "xlims_setter value st =
     (case st of (m, self) \<Rightarrow>
        if first_exceeds_second (cells m value) then (Some (ValueError XminGreaterThanXmax), st)
        else (None, (m, self\<lparr>xlims := value\<rparr>)))"

definition ylims_setter ::
  "aref \<Rightarrow> array_heap \<times> 'a Parallelepiped_scheme
     \<Rightarrow> (array_heap \<times> 'a Parallelepiped_scheme) outcome" where
  "ylims_setter value st =
     (case st of (m, self) \<Rightarrow>
        if first_exceeds_second (cells m value) then (Some (ValueError YminGreaterThanYmax), st)
        else (None, (m, self\<lparr>ylims := value\<rparr>)))"

definition zlims_setter ::
  "aref \<Rightarrow> array_heap \<times> 'a Parallelepiped_scheme
     \<Rightarrow> (array_heap \<times> 'a Parallelepiped_scheme) outcome" where
  "zlims_setter value st =
     (case st of (m, self) \<Rightarrow>
        if first_exceeds_second (cells m value) then (Some (ValueError ZminGreaterThanZmax), st)
        else (None, (m, self\<lparr>zlims := value\<rparr>)))"

text \<open>
  The two ways the methods assign to a limits attribute.  A plain assignment of a newly
  computed array, \<^verbatim>\<open>self.xlims = <new array>\<close>, creates the array and hands its
  reference to the setter; the object changes only when the setter accepts it.  An
  augmented assignment, \<^verbatim>\<open>self.xlims *= f\<close>, reads the reference through the property,
  updates that array in place, and hands the same reference to the setter: the array has
  already changed when the setter raises, and it has changed for every attribute that
  holds it.  When the in-place operation itself raises, nothing has changed.
\<close>

definition assign_new ::
  "ndarray \<Rightarrow> (aref \<Rightarrow> array_heap \<times> 'o \<Rightarrow> (array_heap \<times> 'o) outcome)
     \<Rightarrow> array_heap \<times> 'o \<Rightarrow> (array_heap \<times> 'o) outcome" where
  "assign_new a setter st =
     (case st of (m, self) \<Rightarrow>
        (case alloc a m of (r, m') \<Rightarrow> setter r (m', self)))"

definition augmented_assign ::
  "(ndarray \<Rightarrow> exn + ndarray) \<Rightarrow> ('o \<Rightarrow> aref)
     \<Rightarrow> (aref \<Rightarrow> array_heap \<times> 'o \<Rightarrow> (array_heap \<times> 'o) outcome)
     \<Rightarrow> array_heap \<times> 'o \<Rightarrow> (array_heap \<times> 'o) outcome" where
  "augmented_assign f getter setter st =
     (case st of (m, self) \<Rightarrow>
        (case f (cells m (getter self)) of
           Inl e \<Rightarrow> (Some e, st)
         | Inr a \<Rightarrow> setter (getter self) (m\<lparr>cells := (cells m)(getter self := a)\<rparr>, self)))"

text \<open>
  \<^verbatim>\<open>
  def __init__(self, name, xmin, xmax, ymin, ymax, zmin, zmax,
               reflecting=False, white=False):
      super(Parallelepiped, self).__init__(name, reflecting, white)
      self.xlims = np.array([xmin, xmax])
      self.ylims = np.array([ymin, ymax])
      self.zlims = np.array([zmin, zmax])
  \<close>
\<close>

definition Parallelepiped_init ::
  "string \<Rightarrow> number \<Rightarrow> number \<Rightarrow> number \<Rightarrow> number \<Rightarrow> number \<Rightarrow> number
     \<Rightarrow> bool option \<Rightarrow> bool option
     \<Rightarrow> array_heap \<times> Parallelepiped \<Rightarrow> exn + array_heap \<times> Parallelepiped" where
  "Parallelepiped_init nm xmin xmax ymin ymax zmin zmax rfl wh st0 =
     (case st0 of (m, self0) \<Rightarrow>
        (case ISurface_init nm rfl wh self0 of
           Inl e \<Rightarrow> Inl e
         | Inr self1 \<Rightarrow>
             (case and_then (assign_new (np_array xmin xmax) xlims_setter)
                     (and_then (assign_new (np_array ymin ymax) ylims_setter)
                               (assign_new (np_array zmin zmax) zlims_setter)) (m, self1) of
                (Some e, _) \<Rightarrow> Inl e
              | (None, st) \<Rightarrow> Inr st)))"

definition fresh_Parallelepiped :: Parallelepiped where
  "fresh_Parallelepiped =
     \<lparr>name = [], unique = False, reflecting = None, white = None,
      xlims = 0, ylims = 0, zlims = 0\<rparr>"

text \<open>\<^verbatim>\<open>Parallelepiped(name, xmin, xmax, ymin, ymax, zmin, zmax, reflecting, white)\<close>,
  in a given array heap.\<close>

definition new_Parallelepiped ::
  "string \<Rightarrow> number \<Rightarrow> number \<Rightarrow> number \<Rightarrow> number \<Rightarrow> number \<Rightarrow> number
     \<Rightarrow> bool option \<Rightarrow> bool option \<Rightarrow> array_heap \<Rightarrow> exn + array_heap \<times> Parallelepiped" where
  "new_Parallelepiped nm xmin xmax ymin ymax zmin zmax rfl wh m =
     Parallelepiped_init nm xmin xmax ymin ymax zmin zmax rfl wh (m, fresh_Parallelepiped)"

text \<open>
  \<^verbatim>\<open>
  def shift(self, vector):
      self.xlims += vector[0]
      self.ylims += vector[1]
      self.zlims += vector[2]
  \<close>
\<close>

fun Parallelepiped_shift ::
  "casting \<Rightarrow> pyvector \<Rightarrow> array_heap \<times> 'a Parallelepiped_scheme
     \<Rightarrow> (array_heap \<times> 'a Parallelepiped_scheme) outcome" where
  "Parallelepiped_shift np (v0, v1, v2) st =
     and_then (augmented_assign (\<lambda>a. inplace_plus np a v0) xlims xlims_setter)
    (and_then (augmented_assign (\<lambda>a. inplace_plus np a v1) ylims ylims_setter)
              (augmented_assign (\<lambda>a. inplace_plus np a v2) zlims zlims_setter))
      st"

text \<open>
  \<^verbatim>\<open>
  def stretch(self, vector):
      if vector[0] != 0:
          if vector[0] > 0:
              self.xlims *= vector[0]
          else:
              # Stretch factor is negative, swap limits.
              self.xlims = vector[0] * self.xlims[::-1]
      if vector[1] != 0:
          if vector[1] > 0:
              self.ylims *= vector[1]
          else:
              self.ylims = vector[1] * self.ylims[::-1]
      if vector[2] != 0:
          if vector[2] > 0:
              self.zlims *= vector[2]
          else:
              self.zlims = vector[2] * self.zlims[::-1]
  \<close>
\<close>

definition stretch_x ::
  "casting \<Rightarrow> number \<Rightarrow> array_heap \<times> 'a Parallelepiped_scheme
     \<Rightarrow> (array_heap \<times> 'a Parallelepiped_scheme) outcome" where
  "stretch_x np f st =
     (if num_val f \<noteq> 0 then
        (if num_val f > 0 then augmented_assign (\<lambda>a. inplace_times np a f) xlims xlims_setter st
         else assign_new (scalar_times f (reversed (cells (fst st) (xlims (snd st)))))
                xlims_setter st)
      else (None, st))"

definition stretch_y ::
  "casting \<Rightarrow> number \<Rightarrow> array_heap \<times> 'a Parallelepiped_scheme
     \<Rightarrow> (array_heap \<times> 'a Parallelepiped_scheme) outcome" where
  "stretch_y np f st =
     (if num_val f \<noteq> 0 then
        (if num_val f > 0 then augmented_assign (\<lambda>a. inplace_times np a f) ylims ylims_setter st
         else assign_new (scalar_times f (reversed (cells (fst st) (ylims (snd st)))))
                ylims_setter st)
      else (None, st))"

definition stretch_z ::
  "casting \<Rightarrow> number \<Rightarrow> array_heap \<times> 'a Parallelepiped_scheme
     \<Rightarrow> (array_heap \<times> 'a Parallelepiped_scheme) outcome" where
  "stretch_z np f st =
     (if num_val f \<noteq> 0 then
        (if num_val f > 0 then augmented_assign (\<lambda>a. inplace_times np a f) zlims zlims_setter st
         else assign_new (scalar_times f (reversed (cells (fst st) (zlims (snd st)))))
                zlims_setter st)
      else (None, st))"

fun Parallelepiped_stretch ::
  "casting \<Rightarrow> pyvector \<Rightarrow> array_heap \<times> 'a Parallelepiped_scheme
     \<Rightarrow> (array_heap \<times> 'a Parallelepiped_scheme) outcome" where
  "Parallelepiped_stretch np (v0, v1, v2) st =
     and_then (stretch_x np v0) (and_then (stretch_y np v1) (stretch_z np v2)) st"

subsection \<open>Surface objects and references\<close>

text \<open>
  A surface object is an instance of one of the three concrete classes
  (\<^verbatim>\<open>Cuboid\<close> only forwards to \<^verbatim>\<open>Parallelepiped\<close>); a method call on it dispatches
  on the class.
\<close>

datatype Surface =
    OfAxisCylinder AxisCylinder
  | OfAxisPlane AxisPlane
  | OfParallelepiped Parallelepiped

fun Surface_name :: "Surface \<Rightarrow> string" where
  "Surface_name (OfAxisCylinder c) = name c"
| "Surface_name (OfAxisPlane p) = name p"
| "Surface_name (OfParallelepiped b) = name b"

text \<open>
  A call \<^verbatim>\<open>surface.shift(vector)\<close> or \<^verbatim>\<open>surface.stretch(vector)\<close>, on the array heap
  and the object.  Cylinders and planes hold no array.
\<close>

fun Surface_shift ::
  "casting \<Rightarrow> pyvector \<Rightarrow> array_heap \<times> Surface \<Rightarrow> (array_heap \<times> Surface) outcome" where
  "Surface_shift np v (m, OfAxisCylinder c) =
     (case AxisCylinder_shift (values_of v) c of (e, c') \<Rightarrow> (e, (m, OfAxisCylinder c')))"
| "Surface_shift np v (m, OfAxisPlane p) =
     (case AxisPlane_shift (values_of v) p of (e, p') \<Rightarrow> (e, (m, OfAxisPlane p')))"
| "Surface_shift np v (m, OfParallelepiped b) =
     (case Parallelepiped_shift np v (m, b) of (e, (m', b')) \<Rightarrow> (e, (m', OfParallelepiped b')))"

fun Surface_stretch ::
  "casting \<Rightarrow> pyvector \<Rightarrow> array_heap \<times> Surface \<Rightarrow> (array_heap \<times> Surface) outcome" where
  "Surface_stretch np v (m, OfAxisCylinder c) =
     (case AxisCylinder_stretch (values_of v) c of (e, c') \<Rightarrow> (e, (m, OfAxisCylinder c')))"
| "Surface_stretch np v (m, OfAxisPlane p) =
     (case AxisPlane_stretch (values_of v) p of (e, p') \<Rightarrow> (e, (m, OfAxisPlane p')))"
| "Surface_stretch np v (m, OfParallelepiped b) =
     (case Parallelepiped_stretch np v (m, b) of
        (e, (m', b')) \<Rightarrow> (e, (m', OfParallelepiped b')))"

text \<open>
  Region leaves hold references to surface objects, and several leaves may hold the same
  one.  A reference is an address, and the heap gives the object at each address.
\<close>

type_synonym ref = nat

type_synonym heap = "ref \<Rightarrow> Surface"

text \<open>A method call through a reference: the object at the address is replaced by the
  object as the call leaves it, and the array heap by the array heap as the call leaves
  it.\<close>

definition at_ref ::
  "(array_heap \<times> Surface \<Rightarrow> (array_heap \<times> Surface) outcome) \<Rightarrow> ref
     \<Rightarrow> array_heap \<times> heap \<Rightarrow> (array_heap \<times> heap) outcome" where
  "at_ref method r w =
     (case w of (m, h) \<Rightarrow>
        (case method (m, h r) of (e, (m', s')) \<Rightarrow> (e, (m', h(r := s')))))"

section \<open>Regions\<close>

text \<open>
  A region is a \<^verbatim>\<open>RegionLeaf\<close> holding a surface reference and \<^verbatim>\<open>pos_sense\<close>, or a
  \<^verbatim>\<open>RegionAnd\<close> or \<^verbatim>\<open>RegionOr\<close> holding \<^verbatim>\<open>left_child\<close> and \<^verbatim>\<open>right_child\<close>.
  The card name of a region (default \<^verbatim>\<open><Empty>\<close>) and its \<^verbatim>\<open>parent\<close> attribute are
  read by none of the methods below and are left out.
\<close>

datatype Region =
    RegionLeaf ref bool
  | RegionAnd Region Region
  | RegionOr Region Region

text \<open>
  The properties \<^verbatim>\<open>ISurface.neg\<close> and \<^verbatim>\<open>ISurface.pos\<close>, on the reference of the
  surface, and \<^verbatim>\<open>IRegion.intersect\<close> (operator \<^verbatim>\<open>&\<close>) and \<^verbatim>\<open>IRegion.union\<close>
  (operator \<^verbatim>\<open>|\<close>).
\<close>

definition neg :: "ref \<Rightarrow> Region" where
  "neg surface = RegionLeaf surface False"

definition pos :: "ref \<Rightarrow> Region" where
  "pos surface = RegionLeaf surface True"

definition intersect :: "Region \<Rightarrow> Region \<Rightarrow> Region" where
  "intersect self arg = RegionAnd self arg"

definition union_region :: "Region \<Rightarrow> Region \<Rightarrow> Region" where
  "union_region self arg = RegionOr self arg"

text \<open>
  \<^verbatim>\<open>
  def shift(self, vector):
      """The surfaces themselves are modified; copies are not made.

      """
      # TODO walk.

  def stretch(self, vector):
      """

      """
      # TODO walk.
  \<close>
  Both bodies consist of the docstring alone: the call returns and nothing is written,
  neither to a surface nor to an array.
\<close>

definition IRegion_shift ::
  "pyvector \<Rightarrow> Region \<Rightarrow> array_heap \<times> heap \<Rightarrow> (array_heap \<times> heap) outcome" where
  "IRegion_shift vector self w = (None, w)"

definition IRegion_stretch ::
  "pyvector \<Rightarrow> Region \<Rightarrow> array_heap \<times> heap \<Rightarrow> (array_heap \<times> heap) outcome" where
  "IRegion_stretch vector self w = (None, w)"

text \<open>
  \<^verbatim>\<open>
  # RegionLeaf
  def comment(self):
      if self.pos_sense:
          prefix = '+'
      else:
          prefix = '-'
      return prefix + self.surface.name

  # IRegionBool
  def comment(self, midchar):
      return ("(" + self.left_child.comment() + " " + midchar + " " +
              self.right_child.comment() + ")")

  # RegionAnd                                   # RegionOr
  def comment(self):                            def comment(self):
      return super(RegionAnd, self).comment('&')    return super(RegionOr, self).comment('|')
  \<close>
\<close>

definition IRegionBool_comment :: "string \<Rightarrow> string \<Rightarrow> string \<Rightarrow> string" where
  "IRegionBool_comment left_comment midchar right_comment =
     ''('' @ left_comment @ '' '' @ midchar @ '' '' @ right_comment @ '')''"

fun comment :: "heap \<Rightarrow> Region \<Rightarrow> string" where
  "comment h (RegionLeaf surface pos_sense) =
     (let prefix = (if pos_sense then ''+'' else ''-'') in prefix @ Surface_name (h surface))"
| "comment h (RegionAnd left_child right_child) =
     IRegionBool_comment (comment h left_child) ''&'' (comment h right_child)"
| "comment h (RegionOr left_child right_child) =
     IRegionBool_comment (comment h left_child) ''|'' (comment h right_child)"

text \<open>
  \<^verbatim>\<open>
  def walk(self, leaf_func, and_func=None, or_func=None):
      if isinstance(self, RegionLeaf):
          leaf_func.im_func(leaf_func.im_self, self)
      else:
          self.left_child.walk(leaf_func)
          if and_func and isinstance(self, and_func):
              and_func.im_func(and_func.im_self, self)
          if or_func and isinstance(self, or_func):
              or_func.im_func(or_func.im_func, self)
          self.right_child.walk(leaf_func)
  \<close>
  A visitor is a bound method: \<^verbatim>\<open>f.im_func(f.im_self, node)\<close> runs its function on its
  receiver and the node.  What the visitors change is the state \<open>'w\<close>, and a visitor is
  the state change it makes for a node.  A bound method is true in a condition, so
  \<^verbatim>\<open>and_func and ...\<close> goes on to \<^verbatim>\<open>isinstance(self, and_func)\<close> whenever a visitor was
  passed; \<^verbatim>\<open>isinstance\<close> raises \<^verbatim>\<open>TypeError\<close> when its second argument is not a class,
  a type or a tuple of them, and a bound method is none of these.
\<close>

type_synonym 'w visitor = "Region \<Rightarrow> 'w \<Rightarrow> 'w"

definition isinstance_of_visitor :: "Region \<Rightarrow> 'w visitor \<Rightarrow> exn + bool" where
  "isinstance_of_visitor self f = Inl (TypeError IsinstanceArg2)"

definition visit_if_instance :: "'w visitor option \<Rightarrow> Region \<Rightarrow> 'w \<Rightarrow> 'w outcome" where
  "visit_if_instance func self w =
     (case func of
        None \<Rightarrow> (None, w)
      | Some f \<Rightarrow>
          (case isinstance_of_visitor self f of
             Inl e \<Rightarrow> (Some e, w)
           | Inr b \<Rightarrow> if b then (None, f self w) else (None, w)))"

fun walk :: "'w visitor \<Rightarrow> 'w visitor option \<Rightarrow> 'w visitor option \<Rightarrow> Region \<Rightarrow> 'w \<Rightarrow> 'w outcome" where
  "walk leaf_func and_func or_func (RegionLeaf surface pos_sense) w =
     (None, leaf_func (RegionLeaf surface pos_sense) w)"
| "walk leaf_func and_func or_func (RegionAnd left_child right_child) w =
     and_then (walk leaf_func None None left_child)
    (and_then (visit_if_instance and_func (RegionAnd left_child right_child))
    (and_then (visit_if_instance or_func (RegionAnd left_child right_child))
              (walk leaf_func None None right_child))) w"
| "walk leaf_func and_func or_func (RegionOr left_child right_child) w =
     and_then (walk leaf_func None None left_child)
    (and_then (visit_if_instance and_func (RegionOr left_child right_child))
    (and_then (visit_if_instance or_func (RegionOr left_child right_child))
              (walk leaf_func None None right_child))) w"

text \<open>
  The traversal the specification describes, for comparison: on a leaf the leaf visitor;
  on an internal node the left child, then the visitor of the node's own combinator when
  one was passed, then the right child, with the same three visitors at every level.
\<close>

fun spec_walk :: "'w visitor \<Rightarrow> 'w visitor option \<Rightarrow> 'w visitor option \<Rightarrow> Region \<Rightarrow> 'w \<Rightarrow> 'w" where
  "spec_walk leaf_func and_func or_func (RegionLeaf surface pos_sense) w =
     leaf_func (RegionLeaf surface pos_sense) w"
| "spec_walk leaf_func and_func or_func (RegionAnd left_child right_child) w =
     spec_walk leaf_func and_func or_func right_child
       ((case and_func of None \<Rightarrow> id | Some f \<Rightarrow> f (RegionAnd left_child right_child))
          (spec_walk leaf_func and_func or_func left_child w))"
| "spec_walk leaf_func and_func or_func (RegionOr left_child right_child) w =
     spec_walk leaf_func and_func or_func right_child
       ((case or_func of None \<Rightarrow> id | Some f \<Rightarrow> f (RegionOr left_child right_child))
          (spec_walk leaf_func and_func or_func left_child w))"

text \<open>The leaves of a region from left to right, and a visitor that records its node.\<close>

fun leaves :: "Region \<Rightarrow> Region list" where
  "leaves (RegionLeaf surface pos_sense) = [RegionLeaf surface pos_sense]"
| "leaves (RegionAnd left_child right_child) = leaves left_child @ leaves right_child"
| "leaves (RegionOr left_child right_child) = leaves left_child @ leaves right_child"

definition record_node :: "Region list visitor" where
  "record_node node visited = visited @ [node]"

text \<open>
  The propagation the specification describes, for comparison: the surface method is
  called through the reference of every leaf, from left to right, stopping at the first
  exception.
\<close>

fun spec_propagate ::
  "(array_heap \<times> Surface \<Rightarrow> (array_heap \<times> Surface) outcome) \<Rightarrow> Region
     \<Rightarrow> array_heap \<times> heap \<Rightarrow> (array_heap \<times> heap) outcome" where
  "spec_propagate method (RegionLeaf surface pos_sense) w = at_ref method surface w"
| "spec_propagate method (RegionAnd left_child right_child) w =
     and_then (spec_propagate method left_child) (spec_propagate method right_child) w"
| "spec_propagate method (RegionOr left_child right_child) w =
     and_then (spec_propagate method left_child) (spec_propagate method right_child) w"

section \<open>Cells\<close>

text \<open>
  A material comes from \<^verbatim>\<open>pyne.material\<close>; the cell reads only its \<^verbatim>\<open>name\<close>.
\<close>

record Material =
  material_name :: string

record CellVoid = ICard +
  region :: Region

record Cell = CellVoid +
  material :: Material
  density :: real
  density_units :: string

text \<open>
  \<^verbatim>\<open>
  # CellVoid
  def __init__(self, name, region):
      super(CellVoid, self).__init__(name)
      self.region = region
  \<close>
  The setters of \<^verbatim>\<open>region\<close> and \<^verbatim>\<open>density\<close> store any value.
\<close>

definition region_setter :: "Region \<Rightarrow> 'a CellVoid_scheme \<Rightarrow> 'a CellVoid_scheme outcome" where
  "region_setter obj self = (None, self\<lparr>region := obj\<rparr>)"

definition CellVoid_init :: "string \<Rightarrow> Region \<Rightarrow> 'a CellVoid_scheme \<Rightarrow> exn + 'a CellVoid_scheme" where
  "CellVoid_init nm rg self0 =
     (case ICard_init nm False self0 of
        Inl e \<Rightarrow> Inl e
      | Inr self1 \<Rightarrow>
          (case region_setter rg self1 of
             (Some e, _) \<Rightarrow> Inl e
           | (None, self) \<Rightarrow> Inr self))"

text \<open>
  \<^verbatim>\<open>
  @material.setter
  def material(self, obj):
      # This check is redundant.
      if obj.name == '':
          raise ValueError("The ``name`` property of the material cannot be empty.")
      self._material = obj
  \<close>
\<close>

definition material_setter :: "Material \<Rightarrow> 'a Cell_scheme \<Rightarrow> 'a Cell_scheme outcome" where
  "material_setter obj self =
     (if material_name obj = [] then (Some (ValueError EmptyMaterialName), self)
      else (None, self\<lparr>material := obj\<rparr>))"

definition density_setter :: "real \<Rightarrow> 'a Cell_scheme \<Rightarrow> 'a Cell_scheme outcome" where
  "density_setter value self = (None, self\<lparr>density := value\<rparr>)"

text \<open>
  \<^verbatim>\<open>
  @density_units.setter
  def density_units(self, value):
      if density_units != 'g/cm^3' and density_units != 'atoms/b/cm':
          raise ValueError("The property ``density_units`` must be either "
                  "'g/cm^3' or 'atoms/b/cm'. User provided '{0}'".format(value))
      self._density_units = value
  \<close>
  The parameter of the setter is \<^verbatim>\<open>value\<close>; the name \<^verbatim>\<open>density_units\<close> in the
  condition is no local variable, so Python looks it up among the globals of the module
  and the built-ins, and raises \<^verbatim>\<open>NameError\<close> when it is bound in neither.  The module
  binds \<^verbatim>\<open>abc\<close>, \<^verbatim>\<open>np\<close>, \<^verbatim>\<open>material\<close> and its classes at top level, and nothing
  else.
\<close>

definition module_global :: "string \<Rightarrow> string option" where
  "module_global nm = None"

definition density_units_setter :: "string \<Rightarrow> 'a Cell_scheme \<Rightarrow> 'a Cell_scheme outcome" where
  "density_units_setter value self =
     (case module_global ''density_units'' of
        None \<Rightarrow> (Some (NameError (GlobalNameNotDefined ''density_units'')), self)
      | Some du \<Rightarrow>
          if du \<noteq> ''g/cm^3'' \<and> du \<noteq> ''atoms/b/cm''
          then (Some (ValueError BadDensityUnits), self)
          else (None, self\<lparr>density_units := value\<rparr>))"

text \<open>
  \<^verbatim>\<open>
  # Cell
  def __init__(self, name, region, material, density, density_units):
      super(Cell, self).__init__(name, region)
      self.material = material
      self.density = density
      self.density_units = density_units
  \<close>
\<close>

definition Cell_init ::
  "string \<Rightarrow> Region \<Rightarrow> Material \<Rightarrow> real \<Rightarrow> string \<Rightarrow> Cell \<Rightarrow> exn + Cell" where
  "Cell_init nm rg mat dens units self0 =
     (case CellVoid_init nm rg self0 of
        Inl e \<Rightarrow> Inl e
      | Inr self1 \<Rightarrow>
          (case and_then (material_setter mat)
                  (and_then (density_setter dens) (density_units_setter units)) self1 of
             (Some e, _) \<Rightarrow> Inl e
           | (None, self) \<Rightarrow> Inr self))"

definition fresh_Cell :: Cell where
  "fresh_Cell =
     \<lparr>name = [], unique = False, region = RegionLeaf 0 False,
      material = \<lparr>material_name = []\<rparr>, density = 0, density_units = []\<rparr>"

definition new_Cell :: "string \<Rightarrow> Region \<Rightarrow> Material \<Rightarrow> real \<Rightarrow> string \<Rightarrow> exn + Cell" where
  "new_Cell nm rg mat dens units = Cell_init nm rg mat dens units fresh_Cell"

section \<open>Example objects\<close>

text \<open>
  The objects of the examples in the docstrings:
  \<^verbatim>\<open>AxisCylinder('c', 'z', 1)\<close>, \<^verbatim>\<open>AxisPlane('p', 'x', 3, reflecting=True)\<close> and
  \<^verbatim>\<open>Parallelepiped('mypp', 0, 4, -2, 2, -3, 6)\<close>; a heap that holds the cylinder at
  address 0 and the plane everywhere else; the array heap before any array is created,
  the array heap the constructor of the parallelepiped leaves, with its three
  \<^verbatim>\<open>int64\<close> arrays, and the array heap it leaves for the bounds
  \<^verbatim>\<open>0.0, 4.0, -2.0, 2.0, -3.0, 6.0\<close>, with three \<^verbatim>\<open>float64\<close> arrays.
\<close>

definition example_cylinder :: AxisCylinder where
  "example_cylinder =
     \<lparr>name = ''c'', unique = False, reflecting = None, white = None, cartesian_axis = Z, radius = 1\<rparr>"

definition example_plane :: AxisPlane where
  "example_plane =
     \<lparr>name = ''p'', unique = False, reflecting = Some True, white = None, cartesian_axis = X,
      position = 3\<rparr>"

definition no_arrays :: array_heap where
  "no_arrays = \<lparr>cells = (\<lambda>r. Float64Array 0 0), next_ref = 0\<rparr>"

definition example_arrays :: array_heap where
  "example_arrays =
     \<lparr>cells = (\<lambda>r. Float64Array 0 0)
        (0 := Int64Array 0 4, Suc 0 := Int64Array (- 2) 2, Suc (Suc 0) := Int64Array (- 3) 6),
      next_ref = Suc (Suc (Suc 0))\<rparr>"

definition example_float_arrays :: array_heap where
  "example_float_arrays =
     \<lparr>cells = (\<lambda>r. Float64Array 0 0)
        (0 := Float64Array 0 4, Suc 0 := Float64Array (- 2) 2, Suc (Suc 0) := Float64Array (- 3) 6),
      next_ref = Suc (Suc (Suc 0))\<rparr>"

definition example_box :: Parallelepiped where
  "example_box =
     \<lparr>name = ''mypp'', unique = False, reflecting = Some False, white = Some False,
      xlims = 0, ylims = Suc 0, zlims = Suc (Suc 0)\<rparr>"

definition example_heap :: heap where
  "example_heap = (\<lambda>r. OfAxisPlane example_plane)(0 := OfAxisCylinder example_cylinder)"

section \<open>Auxiliary facts\<close>

lemma new_example_cylinder: "new_AxisCylinder ''c'' ''z'' 1 None None = Inr example_cylinder"
  by (simp add: new_AxisCylinder_def AxisCylinder_init_def IAxisSurface_init_def ISurface_init_def
        ICard_init_def name_setter_def and_then_def reflecting_setter_def white_setter_def truthy_def
        cartesian_axis_setter_def lower_axis_def radius_setter_def fresh_AxisCylinder_def
        example_cylinder_def)

lemma new_example_box:
  "new_Parallelepiped ''mypp'' (PyInt 0) (PyInt 4) (PyInt (- 2)) (PyInt 2) (PyInt (- 3)) (PyInt 6)
     (Some False) (Some False) no_arrays = Inr (example_arrays, example_box)"
  by (simp add: new_Parallelepiped_def Parallelepiped_init_def ISurface_init_def
        ICard_init_def name_setter_def and_then_def reflecting_setter_def white_setter_def truthy_def
        assign_new_def alloc_def xlims_setter_def ylims_setter_def zlims_setter_def
        fresh_Parallelepiped_def example_box_def example_arrays_def no_arrays_def)

lemma new_example_float_box:
  "new_Parallelepiped ''mypp'' (PyFloat 0) (PyFloat 4) (PyFloat (- 2)) (PyFloat 2)
     (PyFloat (- 3)) (PyFloat 6) (Some False) (Some False) no_arrays
     = Inr (example_float_arrays, example_box)"
  by (simp add: new_Parallelepiped_def Parallelepiped_init_def ISurface_init_def
        ICard_init_def name_setter_def and_then_def reflecting_setter_def white_setter_def truthy_def
        assign_new_def alloc_def xlims_setter_def ylims_setter_def zlims_setter_def
        fresh_Parallelepiped_def example_box_def example_float_arrays_def no_arrays_def)

text \<open>The three blocks of \<^verbatim>\<open>AxisCylinder.stretch\<close> exclude each other: only the block of
  the cylinder's own axis runs, on the two components of the other axes.\<close>

lemma AxisCylinder_stretch_eq:
  "AxisCylinder_stretch (v0, v1, v2) c =
    (case (case cartesian_axis c of X \<Rightarrow> (v1, v2) | Y \<Rightarrow> (v0, v2) | Z \<Rightarrow> (v0, v1)) of
      (a, b) \<Rightarrow> if a \<noteq> b then (Some (ValueError CylinderStretchNotUniform), c)
                else if a = 0 then (None, c)
                else radius_setter (radius c * a) c)"
  by (cases "cartesian_axis c")
     (auto simp add: and_then_def stretch_block_def radius_setter_def split: prod.splits option.splits)

text \<open>An element of an \<^verbatim>\<open>int64\<close> array is a whole number.\<close>

lemma int64_value_not_half:
  "fst (array_values (Int64Array a b)) \<noteq> - 3 / 2"
proof
  assume "fst (array_values (Int64Array a b)) = - 3 / 2"
  then have "real_of_int (sint a) = - 3 / 2" by (simp del: of_int_sint)
  then have "real_of_int (2 * sint a) = real_of_int (- 3)" by (simp del: of_int_sint)
  then have "2 * sint a = - 3" by (simp only: of_int_eq_iff)
  then show False by presburger
qed

text \<open>
  One axis of \<^verbatim>\<open>Parallelepiped.stretch\<close> on a \<^verbatim>\<open>float64\<close> array with its bounds in
  order: a positive factor rescales the array in place, a negative factor gives the
  attribute a new array, and no setter raises.  The step lemmas add what the step leaves
  as it was.
\<close>

lemma stretch_x_float:
  assumes "cells m (xlims p) = Float64Array lo hi" and "lo \<le> hi"
  shows "stretch_x np f (m, p) =
    (if 0 < num_val f then
       (None, (m\<lparr>cells := (cells m)(xlims p := Float64Array (lo * num_val f) (hi * num_val f))\<rparr>, p))
     else if num_val f < 0 then
       (None, (m\<lparr>cells := (cells m)(next_ref m := Float64Array (num_val f * hi) (num_val f * lo)),
                 next_ref := Suc (next_ref m)\<rparr>, p\<lparr>xlims := next_ref m\<rparr>))
     else (None, (m, p)))"
  using assms
  by (auto simp add: stretch_x_def augmented_assign_def assign_new_def alloc_def xlims_setter_def
        mult_right_mono mult_left_mono_neg not_less)

lemma stretch_x_float_step:
  assumes "cells m (xlims p) = Float64Array lo hi" and "lo \<le> hi" and "xlims p < next_ref m"
  obtains m1 p1 where
    "stretch_x np f (m, p) = (None, (m1, p1))"
    "cells m1 (xlims p1) =
       (if 0 < num_val f then Float64Array (num_val f * lo) (num_val f * hi)
        else if num_val f < 0 then Float64Array (num_val f * hi) (num_val f * lo)
        else Float64Array lo hi)"
    "p1 = p\<lparr>xlims := xlims p1\<rparr>"
    "\<And>r. r < next_ref m \<Longrightarrow> r \<noteq> xlims p \<Longrightarrow> cells m1 r = cells m r"
    "next_ref m \<le> next_ref m1" "xlims p1 < next_ref m1"
    "xlims p1 = xlims p \<or> next_ref m \<le> xlims p1"
proof (cases "0 < num_val f")
  case True
  show ?thesis
    by (rule that [of "m\<lparr>cells := (cells m)(xlims p := Float64Array (lo * num_val f) (hi * num_val f))\<rparr>" p])
       (use True assms in \<open>simp_all add: stretch_x_float [OF assms(1,2)] mult.commute\<close>)
next
  case False
  show ?thesis
  proof (cases "num_val f < 0")
    case True
    show ?thesis
      by (rule that [of "m\<lparr>cells := (cells m)(next_ref m := Float64Array (num_val f * hi) (num_val f * lo)),
                 next_ref := Suc (next_ref m)\<rparr>" "p\<lparr>xlims := next_ref m\<rparr>"])
         (use True assms in \<open>simp_all add: stretch_x_float [OF assms(1,2)]\<close>)
  next
    case F2: False
    show ?thesis
      by (rule that [of m p])
         (use False F2 assms in \<open>simp_all add: stretch_x_float [OF assms(1,2)]\<close>)
  qed
qed

lemma stretch_y_float:
  assumes "cells m (ylims p) = Float64Array lo hi" and "lo \<le> hi"
  shows "stretch_y np f (m, p) =
    (if 0 < num_val f then
       (None, (m\<lparr>cells := (cells m)(ylims p := Float64Array (lo * num_val f) (hi * num_val f))\<rparr>, p))
     else if num_val f < 0 then
       (None, (m\<lparr>cells := (cells m)(next_ref m := Float64Array (num_val f * hi) (num_val f * lo)),
                 next_ref := Suc (next_ref m)\<rparr>, p\<lparr>ylims := next_ref m\<rparr>))
     else (None, (m, p)))"
  using assms
  by (auto simp add: stretch_y_def augmented_assign_def assign_new_def alloc_def ylims_setter_def
        mult_right_mono mult_left_mono_neg not_less)

lemma stretch_y_float_step:
  assumes "cells m (ylims p) = Float64Array lo hi" and "lo \<le> hi" and "ylims p < next_ref m"
  obtains m1 p1 where
    "stretch_y np f (m, p) = (None, (m1, p1))"
    "cells m1 (ylims p1) =
       (if 0 < num_val f then Float64Array (num_val f * lo) (num_val f * hi)
        else if num_val f < 0 then Float64Array (num_val f * hi) (num_val f * lo)
        else Float64Array lo hi)"
    "p1 = p\<lparr>ylims := ylims p1\<rparr>"
    "\<And>r. r < next_ref m \<Longrightarrow> r \<noteq> ylims p \<Longrightarrow> cells m1 r = cells m r"
    "next_ref m \<le> next_ref m1" "ylims p1 < next_ref m1"
    "ylims p1 = ylims p \<or> next_ref m \<le> ylims p1"
proof (cases "0 < num_val f")
  case True
  show ?thesis
    by (rule that [of "m\<lparr>cells := (cells m)(ylims p := Float64Array (lo * num_val f) (hi * num_val f))\<rparr>" p])
       (use True assms in \<open>simp_all add: stretch_y_float [OF assms(1,2)] mult.commute\<close>)
next
  case False
  show ?thesis
  proof (cases "num_val f < 0")
    case True
    show ?thesis
      by (rule that [of "m\<lparr>cells := (cells m)(next_ref m := Float64Array (num_val f * hi) (num_val f * lo)),
                 next_ref := Suc (next_ref m)\<rparr>" "p\<lparr>ylims := next_ref m\<rparr>"])
         (use True assms in \<open>simp_all add: stretch_y_float [OF assms(1,2)]\<close>)
  next
    case F2: False
    show ?thesis
      by (rule that [of m p])
         (use False F2 assms in \<open>simp_all add: stretch_y_float [OF assms(1,2)]\<close>)
  qed
qed

lemma stretch_z_float:
  assumes "cells m (zlims p) = Float64Array lo hi" and "lo \<le> hi"
  shows "stretch_z np f (m, p) =
    (if 0 < num_val f then
       (None, (m\<lparr>cells := (cells m)(zlims p := Float64Array (lo * num_val f) (hi * num_val f))\<rparr>, p))
     else if num_val f < 0 then
       (None, (m\<lparr>cells := (cells m)(next_ref m := Float64Array (num_val f * hi) (num_val f * lo)),
                 next_ref := Suc (next_ref m)\<rparr>, p\<lparr>zlims := next_ref m\<rparr>))
     else (None, (m, p)))"
  using assms
  by (auto simp add: stretch_z_def augmented_assign_def assign_new_def alloc_def zlims_setter_def
        mult_right_mono mult_left_mono_neg not_less)

lemma stretch_z_float_step:
  assumes "cells m (zlims p) = Float64Array lo hi" and "lo \<le> hi" and "zlims p < next_ref m"
  obtains m1 p1 where
    "stretch_z np f (m, p) = (None, (m1, p1))"
    "cells m1 (zlims p1) =
       (if 0 < num_val f then Float64Array (num_val f * lo) (num_val f * hi)
        else if num_val f < 0 then Float64Array (num_val f * hi) (num_val f * lo)
        else Float64Array lo hi)"
    "p1 = p\<lparr>zlims := zlims p1\<rparr>"
    "\<And>r. r < next_ref m \<Longrightarrow> r \<noteq> zlims p \<Longrightarrow> cells m1 r = cells m r"
    "next_ref m \<le> next_ref m1" "zlims p1 < next_ref m1"
    "zlims p1 = zlims p \<or> next_ref m \<le> zlims p1"
proof (cases "0 < num_val f")
  case True
  show ?thesis
    by (rule that [of "m\<lparr>cells := (cells m)(zlims p := Float64Array (lo * num_val f) (hi * num_val f))\<rparr>" p])
       (use True assms in \<open>simp_all add: stretch_z_float [OF assms(1,2)] mult.commute\<close>)
next
  case False
  show ?thesis
  proof (cases "num_val f < 0")
    case True
    show ?thesis
      by (rule that [of "m\<lparr>cells := (cells m)(next_ref m := Float64Array (num_val f * hi) (num_val f * lo)),
                 next_ref := Suc (next_ref m)\<rparr>" "p\<lparr>zlims := next_ref m\<rparr>"])
         (use True assms in \<open>simp_all add: stretch_z_float [OF assms(1,2)]\<close>)
  next
    case F2: False
    show ?thesis
      by (rule that [of m p])
         (use False F2 assms in \<open>simp_all add: stretch_z_float [OF assms(1,2)]\<close>)
  qed
qed

text \<open>
  With the leaf visitor alone, \<^verbatim>\<open>walk\<close> never raises and is the traversal of the
  specification: it visits the leaves from left to right.
\<close>

lemma walk_without_combinators:
  "walk leaf_func None None r w = (None, spec_walk leaf_func None None r w)"
  by (induction r arbitrary: w) (simp_all add: and_then_def visit_if_instance_def)

lemma spec_walk_record_leaves: "spec_walk record_node None None r vs = vs @ leaves r"
  by (induction r arbitrary: vs) (simp_all add: record_node_def)

text \<open>The setter of \<^verbatim>\<open>density_units\<close> raises for every value.\<close>

lemma density_units_setter_raises:
  "density_units_setter value self = (Some (NameError (GlobalNameNotDefined ''density_units'')), self)"
  by (simp add: density_units_setter_def module_global_def)

section \<open>Properties of the naming contract\<close>

text \<open>
  C7.  Assigning a name to a card constructed as unique always raises the read-only
  error (\<^verbatim>\<open>StandardError\<close>) and the name stays as it was; assigning the empty string
  to a non-unique card raises the empty-name error (\<^verbatim>\<open>ValueError\<close>); assigning a
  non-empty name to a non-unique card succeeds and the name property then returns it.
\<close>

theorem name_setter_contract:
  "(unique c \<longrightarrow>
      fst (name_setter v c) = Some (StandardError UniqueNameReadOnly) \<and>
      name (snd (name_setter v c)) = name c) \<and>
   (\<not> unique c \<longrightarrow> fst (name_setter [] c) = Some (ValueError EmptyName)) \<and>
   (\<not> unique c \<and> v \<noteq> [] \<longrightarrow>
      fst (name_setter v c) = None \<and> name (snd (name_setter v c)) = v)"
  by (simp add: name_setter_def)

theorem name_setter_contract_witness:
  "fst (name_setter ''other'' \<lparr>name = ''criticality'', unique = True\<rparr>)
     = Some (StandardError UniqueNameReadOnly) \<and>
   name (snd (name_setter ''other'' \<lparr>name = ''criticality'', unique = True\<rparr>)) = ''criticality'' \<and>
   fst (name_setter [] \<lparr>name = ''cellA'', unique = False\<rparr>) = Some (ValueError EmptyName) \<and>
   fst (name_setter ''cellB'' \<lparr>name = ''cellA'', unique = False\<rparr>) = None \<and>
   name (snd (name_setter ''cellB'' \<lparr>name = ''cellA'', unique = False\<rparr>)) = ''cellB''"
  using name_setter_contract [of "\<lparr>name = ''criticality'', unique = True\<rparr>" "''other''"]
        name_setter_contract [of "\<lparr>name = ''cellA'', unique = False\<rparr>" "''cellB''"]
  by simp

text \<open>
  C10.  Construction with \<^verbatim>\<open>unique=True\<close> stores the given name without the
  empty-name check: every name, the empty one included, yields a card and no error,
  whereas the empty name at non-unique construction raises the empty-name error.
\<close>

theorem ICard_init_unique_bypasses_check:
  "ICard_init nm True self = Inr (self\<lparr>unique := True, name := nm\<rparr>) \<and>
   ICard_init [] True self = Inr (self\<lparr>unique := True, name := []\<rparr>) \<and>
   ICard_init [] False self = Inl (ValueError EmptyName)"
  by (simp add: ICard_init_def name_setter_def)

section \<open>Properties of the surface transforms\<close>

text \<open>
  C3.  The claim is that \<^verbatim>\<open>AxisCylinder.stretch\<close> multiplies the radius by the factor
  whenever the two components perpendicular to the axis are equal and non-zero.
  Evaluated on the z-axis cylinder of radius 1 and the vector \<open>(-2, -2, 0)\<close>, a uniform
  reflection, the method of the source raises the \<^verbatim>\<open>ValueError\<close> of the setter of the
  radius and the radius stays 1.  The docstring of \<^verbatim>\<open>ISurface.stretch\<close>, to which the
  method refers, says that negative values are allowed and represent reflections, and the
  sibling \<^verbatim>\<open>AxisPlane.stretch\<close> accepts the factor \<open>-2\<close> on the plane x = 3.
\<close>

theorem AxisCylinder_stretch_reflection_raises:
  "new_AxisCylinder ''c'' ''z'' 1 None None = Inr example_cylinder \<and>
   AxisCylinder_stretch (- 2, - 2, 0) example_cylinder =
     (Some (ValueError RadiusNotPositive), example_cylinder) \<and>
   radius (snd (AxisCylinder_stretch (- 2, - 2, 0) example_cylinder))
     \<noteq> radius example_cylinder * (- 2) \<and>
   AxisPlane_stretch (- 2, 0, 0) example_plane = (None, example_plane\<lparr>position := - 6\<rparr>)"
  by (simp add: new_example_cylinder and_then_def stretch_block_def radius_setter_def
        position_setter_def example_cylinder_def example_plane_def)

text \<open>
  C4.  For every \<^verbatim>\<open>AxisCylinder\<close>, \<^verbatim>\<open>shift\<close> raises exactly when a component of the
  vector perpendicular to the cylinder's axis is non-zero, and whether it raises or not
  the cylinder, its radius and its axis are as before the call.
\<close>

theorem AxisCylinder_shift_contract:
  "(cartesian_axis c = X \<longrightarrow>
      (fst (AxisCylinder_shift (v0, v1, v2) c) \<noteq> None) = (v1 \<noteq> 0 \<or> v2 \<noteq> 0)) \<and>
   (cartesian_axis c = Y \<longrightarrow>
      (fst (AxisCylinder_shift (v0, v1, v2) c) \<noteq> None) = (v0 \<noteq> 0 \<or> v2 \<noteq> 0)) \<and>
   (cartesian_axis c = Z \<longrightarrow>
      (fst (AxisCylinder_shift (v0, v1, v2) c) \<noteq> None) = (v0 \<noteq> 0 \<or> v1 \<noteq> 0)) \<and>
   snd (AxisCylinder_shift (v0, v1, v2) c) = c \<and>
   radius (snd (AxisCylinder_shift (v0, v1, v2) c)) = radius c \<and>
   cartesian_axis (snd (AxisCylinder_shift (v0, v1, v2) c)) = cartesian_axis c"
  by (cases "cartesian_axis c") (simp_all add: Let_def)

theorem AxisCylinder_shift_contract_witness:
  "fst (AxisCylinder_shift (0, 0, 3) example_cylinder) = None \<and>
   fst (AxisCylinder_shift (3, 0, 0) example_cylinder) \<noteq> None \<and>
   snd (AxisCylinder_shift (3, 0, 0) example_cylinder) = example_cylinder \<and>
   radius (snd (AxisCylinder_shift (0, 0, 3) example_cylinder)) = 1"
  using AxisCylinder_shift_contract [of example_cylinder 0 0 3]
        AxisCylinder_shift_contract [of example_cylinder 3 0 0]
  by (simp add: example_cylinder_def del: AxisCylinder_shift.simps)

text \<open>
  C5.  The claim is that \<^verbatim>\<open>Parallelepiped.stretch\<close> multiplies both bounds of an axis
  by a positive factor.  Evaluated on \<^verbatim>\<open>Parallelepiped('mypp', 0, 4, -2, 2, -3, 6)\<close>,
  whose bounds are ints and whose limits are therefore \<^verbatim>\<open>int64\<close> arrays, and the vector
  \<^verbatim>\<open>[0, 0, 0.5]\<close>: under the casting rule \<^verbatim>\<open>same_kind\<close> the in-place product raises
  \<^verbatim>\<open>TypeError\<close> and nothing changes; under the rule \<^verbatim>\<open>unsafe\<close> the z array stays an
  \<^verbatim>\<open>int64\<close> array, whose first element cannot be \<open>-1.5\<close>, and with the conversion
  that drops the fraction it holds \<open>-1\<close> and \<open>3\<close>.  The claim gives \<open>-1.5\<close> and \<open>3\<close>.
\<close>

theorem Parallelepiped_stretch_int_bounds:
  "new_Parallelepiped ''mypp'' (PyInt 0) (PyInt 4) (PyInt (- 2)) (PyInt 2) (PyInt (- 3)) (PyInt 6)
     (Some False) (Some False) no_arrays = Inr (example_arrays, example_box) \<and>
   cells example_arrays (zlims example_box) = Int64Array (- 3) 6 \<and>
   Parallelepiped_stretch SameKind (PyInt 0, PyInt 0, PyFloat (1 / 2)) (example_arrays, example_box) =
     (Some (TypeError CannotCastOutput), (example_arrays, example_box)) \<and>
   snd (Parallelepiped_stretch (Unsafe conv) (PyInt 0, PyInt 0, PyFloat (1 / 2))
          (example_arrays, example_box)) =
     (example_arrays\<lparr>cells := (cells example_arrays)
        (zlims example_box := Int64Array (conv (- 3 / 2)) (conv 3))\<rparr>, example_box) \<and>
   fst (array_values (Int64Array (conv (- 3 / 2)) (conv 3))) \<noteq> - 3 / 2 \<and>
   Parallelepiped_stretch (Unsafe c_truncate) (PyInt 0, PyInt 0, PyFloat (1 / 2))
       (example_arrays, example_box) =
     (None, (example_arrays\<lparr>cells := (cells example_arrays)
        (zlims example_box := Int64Array (- 1) 3)\<rparr>, example_box))"
  apply (intro conjI)
       apply (rule new_example_box)
      apply (simp add: example_arrays_def example_box_def)
     apply (simp add: and_then_def stretch_x_def stretch_y_def stretch_z_def augmented_assign_def
        example_arrays_def example_box_def)
    apply (simp add: and_then_def stretch_x_def stretch_y_def stretch_z_def augmented_assign_def
        zlims_setter_def example_arrays_def example_box_def)
   apply (rule int64_value_not_half)
  apply (simp add: and_then_def stretch_x_def stretch_y_def stretch_z_def augmented_assign_def
        zlims_setter_def c_truncate_def example_arrays_def example_box_def)
  done

section \<open>Properties of regions\<close>

text \<open>
  C1.  The claim is that \<^verbatim>\<open>Region.shift\<close> and \<^verbatim>\<open>Region.stretch\<close> reach every leaf and
  transform its surface in place, so that for the z-axis cylinder \<open>c\<close> of radius 1 and
  \<^verbatim>\<open>region = c.neg\<close> the call \<^verbatim>\<open>region.stretch((2, 2, 0))\<close> leaves \<^verbatim>\<open>c.radius == 2\<close>
  with the comment unchanged.  Evaluated on that input, the method of the source returns
  with the heap as it was, the radius still 1; calling the surface's own \<^verbatim>\<open>stretch\<close>
  through the leaf, as the claim describes, would store 2.  The comment is \<open>-c\<close> in
  either heap.
\<close>

theorem IRegion_stretch_end_to_end:
  "new_AxisCylinder ''c'' ''z'' 1 None None = Inr example_cylinder \<and>
   example_heap 0 = OfAxisCylinder example_cylinder \<and>
   radius example_cylinder = 1 \<and>
   IRegion_stretch (PyInt 2, PyInt 2, PyInt 0) (neg 0) (m, example_heap) = (None, (m, example_heap)) \<and>
   spec_propagate (Surface_stretch np (PyInt 2, PyInt 2, PyInt 0)) (neg 0) (m, example_heap) =
     (None, (m, example_heap(0 := OfAxisCylinder (example_cylinder\<lparr>radius := 2\<rparr>)))) \<and>
   comment example_heap (neg 0) = ''-c'' \<and>
   comment (example_heap(0 := OfAxisCylinder (example_cylinder\<lparr>radius := 2\<rparr>))) (neg 0) = ''-c''"
  by (simp add: new_example_cylinder IRegion_stretch_def neg_def at_ref_def and_then_def
        stretch_block_def radius_setter_def example_heap_def example_cylinder_def)

text \<open>
  C2.  The claim is that \<^verbatim>\<open>walk\<close> visits the left child, then calls the visitor of the
  node's combinator when one was passed, then visits the right child.  Evaluated on
  \<^verbatim>\<open>(a.pos & b.pos).walk(leaf, and_func=visitor)\<close> with visitors that record their node,
  the method of the source visits the left leaf and then raises \<^verbatim>\<open>TypeError\<close>: neither
  the node nor the right leaf is visited.  The traversal the claim describes records the
  left leaf, the node and the right leaf.
\<close>

theorem walk_and_visitor_raises:
  "walk record_node (Some record_node) None (intersect (pos 0) (pos 1)) [] =
     (Some (TypeError IsinstanceArg2), [pos 0]) \<and>
   spec_walk record_node (Some record_node) None (intersect (pos 0) (pos 1)) [] =
     [pos 0, intersect (pos 0) (pos 1), pos 1]"
  by (simp add: intersect_def pos_def and_then_def visit_if_instance_def isinstance_of_visitor_def
        record_node_def)

text \<open>
  C6.  For every leaf over a surface named \<open>s\<close>, \<^verbatim>\<open>comment()\<close> is \<open>+s\<close> when the sense
  is positive and \<open>-s\<close> when it is negative; for every intersection it is the left
  comment, \<open>&\<close> between spaces and the right comment inside one pair of parentheses,
  and for every union the same with \<open>|\<close>.
\<close>

theorem comment_rendering:
  "comment h (pos s) = ''+'' @ Surface_name (h s) \<and>
   comment h (neg s) = ''-'' @ Surface_name (h s) \<and>
   comment h (RegionLeaf s sense) = (if sense then ''+'' else ''-'') @ Surface_name (h s) \<and>
   comment h (intersect l r) = ''('' @ comment h l @ '' & '' @ comment h r @ '')'' \<and>
   comment h (union_region l r) = ''('' @ comment h l @ '' | '' @ comment h r @ '')''"
  by (simp add: pos_def neg_def intersect_def union_region_def IRegionBool_comment_def)

theorem comment_rendering_witness:
  "comment example_heap (union_region (intersect (pos 1) (neg 0)) (pos 1)) = ''((+p & -c) | +p)''"
  using comment_rendering [where h = example_heap and s = 1
          and l = "intersect (pos 1) (neg 0)" and r = "pos 1"]
        comment_rendering [where h = example_heap and s = 0 and l = "pos 1" and r = "neg 0"]
  by (simp add: example_heap_def example_plane_def example_cylinder_def)

section \<open>Properties of the surface flags and of cells\<close>

text \<open>
  C8.  The claim is that every operation that would leave a surface both reflecting and
  white raises.  The constructor does: \<^verbatim>\<open>AxisPlane('p', 'x', 3, True, True)\<close> raises the
  \<^verbatim>\<open>ValueError\<close>.  The setters do not: on the plane constructed with
  \<^verbatim>\<open>reflecting=True\<close>, the assignment \<^verbatim>\<open>p.white = True\<close> returns normally and leaves both
  flags true.
\<close>

theorem white_setter_on_reflecting_surface:
  "new_AxisPlane ''p'' ''x'' 3 (Some True) None = Inr example_plane \<and>
   white_setter (Some True) example_plane = (None, example_plane\<lparr>white := Some True\<rparr>) \<and>
   truthy (reflecting (example_plane\<lparr>white := Some True\<rparr>)) \<and>
   truthy (white (example_plane\<lparr>white := Some True\<rparr>)) \<and>
   new_AxisPlane ''p'' ''x'' 3 (Some True) (Some True) = Inl (ValueError ReflectingAndWhite)"
  by (simp add: new_AxisPlane_def AxisPlane_init_def IAxisSurface_init_def ISurface_init_def
        ICard_init_def name_setter_def and_then_def reflecting_setter_def white_setter_def truthy_def
        cartesian_axis_setter_def lower_axis_def position_setter_def fresh_AxisPlane_def
        example_plane_def)

text \<open>
  C9.  The claim is that constructing a \<^verbatim>\<open>Cell\<close> with one of the two allowed unit tags
  succeeds and stores the tag.  Evaluated on \<^verbatim>\<open>Cell('fuel', s.neg, m, 10, 'g/cm^3')\<close> and
  the same with \<^verbatim>\<open>'atoms/b/cm'\<close>, for a material named \<open>UO2\<close>, the constructor raises
  \<^verbatim>\<open>NameError\<close> in the setter of \<^verbatim>\<open>density_units\<close>.
\<close>

theorem new_Cell_allowed_units_raises:
  "new_Cell ''fuel'' (neg 0) \<lparr>material_name = ''UO2''\<rparr> 10 ''g/cm^3'' =
     Inl (NameError (GlobalNameNotDefined ''density_units'')) \<and>
   new_Cell ''fuel'' (neg 0) \<lparr>material_name = ''UO2''\<rparr> 10 ''atoms/b/cm'' =
     Inl (NameError (GlobalNameNotDefined ''density_units''))"
  by (simp add: new_Cell_def Cell_init_def CellVoid_init_def ICard_init_def name_setter_def
        region_setter_def and_then_def material_setter_def density_setter_def
        density_units_setter_raises fresh_Cell_def)

section \<open>Further properties\<close>

text \<open>
  With the leaf visitor alone, \<^verbatim>\<open>walk\<close> never raises and is the in-order traversal:
  it visits the leaves from left to right, once each.  The two regions
  \<^verbatim>\<open>(a & b) & c\<close> and \<^verbatim>\<open>a & (b & c)\<close> are different trees and both visit the three
  leaves \<open>a\<close>, \<open>b\<close>, \<open>c\<close> in this order.
\<close>

theorem walk_leaf_visitor_only:
  "walk leaf_func None None r w = (None, spec_walk leaf_func None None r w) \<and>
   walk record_node None None r [] = (None, leaves r) \<and>
   walk record_node None None (intersect (intersect (pos a) (pos b)) (pos c)) [] =
     (None, [pos a, pos b, pos c]) \<and>
   walk record_node None None (intersect (pos a) (intersect (pos b) (pos c))) [] =
     (None, [pos a, pos b, pos c]) \<and>
   intersect (intersect (pos a) (pos b)) (pos c) \<noteq> intersect (pos a) (intersect (pos b) (pos c))"
  by (simp add: walk_without_combinators spec_walk_record_leaves intersect_def pos_def
        record_node_def del: walk.simps)

text \<open>
  With a combinator visitor, \<^verbatim>\<open>walk\<close> on an internal node always raises
  \<^verbatim>\<open>TypeError\<close>, after the leaf visitor has run over the left child alone.
\<close>

theorem walk_combinator_visitor_raises:
  "fst (walk leaf_func (Some f) or_func (RegionAnd l r) w) = Some (TypeError IsinstanceArg2) \<and>
   fst (walk leaf_func and_func (Some g) (RegionAnd l r) w) = Some (TypeError IsinstanceArg2) \<and>
   fst (walk leaf_func (Some f) or_func (RegionOr l r) w) = Some (TypeError IsinstanceArg2) \<and>
   fst (walk leaf_func and_func (Some g) (RegionOr l r) w) = Some (TypeError IsinstanceArg2) \<and>
   snd (walk leaf_func (Some f) or_func (RegionAnd l r) w) = spec_walk leaf_func None None l w \<and>
   snd (walk leaf_func and_func (Some g) (RegionOr l r) w) = spec_walk leaf_func None None l w"
  by (cases and_func)
     (simp_all add: walk_without_combinators and_then_def visit_if_instance_def
        isinstance_of_visitor_def)

text \<open>
  \<^verbatim>\<open>IRegion.shift\<close> and \<^verbatim>\<open>IRegion.stretch\<close> return normally and write nothing, for
  every region, vector, heap and array heap.
\<close>

theorem IRegion_transforms_write_nothing:
  "IRegion_shift v r w = (None, w) \<and> IRegion_stretch v r w = (None, w)"
  by (simp add: IRegion_shift_def IRegion_stretch_def)

text \<open>
  The constructor of \<^verbatim>\<open>Cell\<close> raises on every input: for an empty cell name or an empty
  material name the \<^verbatim>\<open>ValueError\<close> of that check, and otherwise the \<^verbatim>\<open>NameError\<close> of
  the setter of \<^verbatim>\<open>density_units\<close>.
\<close>

theorem new_Cell_always_raises:
  "new_Cell nm rg mat dens units =
     Inl (if nm = [] then ValueError EmptyName
          else if material_name mat = [] then ValueError EmptyMaterialName
          else NameError (GlobalNameNotDefined ''density_units''))"
  by (simp add: new_Cell_def Cell_init_def CellVoid_init_def ICard_init_def name_setter_def
        region_setter_def and_then_def material_setter_def density_setter_def
        density_units_setter_raises fresh_Cell_def)

text \<open>
  A uniform negative stretch of an \<^verbatim>\<open>AxisCylinder\<close> perpendicular to its axis is refused
  by the setter of the radius, and the cylinder is unchanged.
\<close>

theorem AxisCylinder_stretch_negative:
  assumes "(a, a) = (case cartesian_axis c of X \<Rightarrow> (v1, v2) | Y \<Rightarrow> (v0, v2) | Z \<Rightarrow> (v0, v1))"
      and "a < 0" and "0 < radius c"
  shows "AxisCylinder_stretch (v0, v1, v2) c = (Some (ValueError RadiusNotPositive), c)"
  using assms
  by (cases "cartesian_axis c")
     (auto simp add: AxisCylinder_stretch_eq radius_setter_def mult_le_0_iff
           simp del: AxisCylinder_stretch.simps)

theorem AxisCylinder_stretch_negative_witness:
  "AxisCylinder_stretch (- 1, - 1, 5) example_cylinder =
     (Some (ValueError RadiusNotPositive), example_cylinder)"
proof -
  have "(- 1 :: real, - 1 :: real) =
          (case cartesian_axis example_cylinder of
             X \<Rightarrow> (- 1, 5) | Y \<Rightarrow> (- 1, 5) | Z \<Rightarrow> (- 1, - 1))"
    and "(- 1 :: real) < 0" and "0 < radius example_cylinder"
    by (simp_all add: example_cylinder_def)
  then show ?thesis by (rule AxisCylinder_stretch_negative)
qed

text \<open>
  The radius of an \<^verbatim>\<open>AxisCylinder\<close> is positive when the constructor returns, and
  \<^verbatim>\<open>stretch\<close> and \<^verbatim>\<open>shift\<close> keep it positive, whether they raise or not.
\<close>

theorem AxisCylinder_radius_positive:
  "(new_AxisCylinder nm ax r rfl wh = Inr c \<longrightarrow> 0 < radius c) \<and>
   (0 < radius c \<longrightarrow> 0 < radius (snd (AxisCylinder_stretch (v0, v1, v2) c))) \<and>
   (0 < radius c \<longrightarrow> 0 < radius (snd (AxisCylinder_shift (v0, v1, v2) c)))"
proof (intro conjI impI)
  assume "new_AxisCylinder nm ax r rfl wh = Inr c"
  then show "0 < radius c"
    by (auto simp add: new_AxisCylinder_def AxisCylinder_init_def radius_setter_def
          split: sum.splits if_splits)
next
  assume "0 < radius c"
  then show "0 < radius (snd (AxisCylinder_stretch (v0, v1, v2) c))"
    by (cases "cartesian_axis c")
       (auto simp add: AxisCylinder_stretch_eq radius_setter_def
             simp del: AxisCylinder_stretch.simps)
next
  assume "0 < radius c"
  then show "0 < radius (snd (AxisCylinder_shift (v0, v1, v2) c))"
    by (simp add: Let_def)
qed

theorem AxisCylinder_radius_positive_witness:
  "0 < radius example_cylinder \<and>
   0 < radius (snd (AxisCylinder_stretch (3, 3, 0) example_cylinder)) \<and>
   0 < radius (snd (AxisCylinder_shift (0, 0, 4) example_cylinder))"
  using AxisCylinder_radius_positive [where c = example_cylinder and nm = "''c''" and ax = "''z''"
          and r = 1 and rfl = None and wh = None and ?v0.0 = 3 and ?v1.0 = 3 and ?v2.0 = 0]
        AxisCylinder_radius_positive [where c = example_cylinder and nm = "''c''" and ax = "''z''"
          and r = 1 and rfl = None and wh = None and ?v0.0 = 0 and ?v1.0 = 0 and ?v2.0 = 4]
        new_example_cylinder
  by (simp del: AxisCylinder_stretch.simps AxisCylinder_shift.simps)

text \<open>
  What \<^verbatim>\<open>AxisCylinder.stretch\<close> does outside reflections, with \<open>a\<close> and \<open>b\<close> the two
  components perpendicular to the cylinder's axis: if they are unequal, it raises the
  non-uniform-stretch \<^verbatim>\<open>ValueError\<close> and the cylinder is unchanged; if they are equal
  and positive (and the radius is positive, as the setter keeps it), the radius is
  multiplied by that factor and nothing else changes; if they are both zero, the call
  changes nothing and raises nothing; and the component along the axis has no effect: two
  vectors with the same perpendicular components give the same outcome.
\<close>

theorem AxisCylinder_stretch_contract:
  assumes "(a, b) = (case cartesian_axis c of X \<Rightarrow> (v1, v2) | Y \<Rightarrow> (v0, v2) | Z \<Rightarrow> (v0, v1))"
  shows "(a \<noteq> b \<longrightarrow>
            AxisCylinder_stretch (v0, v1, v2) c = (Some (ValueError CylinderStretchNotUniform), c)) \<and>
         (a = b \<and> 0 < a \<and> 0 < radius c \<longrightarrow>
            AxisCylinder_stretch (v0, v1, v2) c = (None, c\<lparr>radius := radius c * a\<rparr>)) \<and>
         (a = b \<and> a = 0 \<longrightarrow> AxisCylinder_stretch (v0, v1, v2) c = (None, c)) \<and>
         ((case cartesian_axis c of X \<Rightarrow> (w1, w2) | Y \<Rightarrow> (w0, w2) | Z \<Rightarrow> (w0, w1)) = (a, b) \<longrightarrow>
            AxisCylinder_stretch (w0, w1, w2) c = AxisCylinder_stretch (v0, v1, v2) c)"
  using assms
  by (cases "cartesian_axis c")
     (auto simp add: AxisCylinder_stretch_eq radius_setter_def mult_le_0_iff
           simp del: AxisCylinder_stretch.simps)

theorem AxisCylinder_stretch_contract_witness:
  "AxisCylinder_stretch (2, 3, 7) example_cylinder =
     (Some (ValueError CylinderStretchNotUniform), example_cylinder) \<and>
   AxisCylinder_stretch (2, 2, 7) example_cylinder = (None, example_cylinder\<lparr>radius := 2\<rparr>) \<and>
   AxisCylinder_stretch (0, 0, 7) example_cylinder = (None, example_cylinder) \<and>
   AxisCylinder_stretch (2, 2, 0) example_cylinder = AxisCylinder_stretch (2, 2, 7) example_cylinder"
  using AxisCylinder_stretch_contract [where c = example_cylinder and a = 2 and b = 3
          and ?v0.0 = 2 and ?v1.0 = 3 and ?v2.0 = 7 and ?w0.0 = 2 and ?w1.0 = 3 and ?w2.0 = 0]
        AxisCylinder_stretch_contract [where c = example_cylinder and a = 2 and b = 2
          and ?v0.0 = 2 and ?v1.0 = 2 and ?v2.0 = 7 and ?w0.0 = 2 and ?w1.0 = 2 and ?w2.0 = 0]
        AxisCylinder_stretch_contract [where c = example_cylinder and a = 0 and b = 0
          and ?v0.0 = 0 and ?v1.0 = 0 and ?v2.0 = 7 and ?w0.0 = 0 and ?w1.0 = 0 and ?w2.0 = 0]
  by (simp add: example_cylinder_def del: AxisCylinder_stretch.simps)

text \<open>
  \<^verbatim>\<open>Parallelepiped.stretch\<close> on three distinct \<^verbatim>\<open>float64\<close> arrays with their bounds
  in order, for every casting rule and every vector of ints and floats: nothing is
  raised, and each axis goes by its own factor alone.  A positive factor multiplies both
  bounds of the axis, a negative factor multiplies both and swaps them, a zero factor
  leaves them as they are; the bounds of every axis are in order afterwards, and nothing
  else of the object changes.
\<close>

theorem Parallelepiped_stretch_float_arrays:
  assumes x: "cells m (xlims p) = Float64Array xlo xhi" "xlo \<le> xhi"
      and y: "cells m (ylims p) = Float64Array ylo yhi" "ylo \<le> yhi"
      and z: "cells m (zlims p) = Float64Array zlo zhi" "zlo \<le> zhi"
      and apart: "xlims p \<noteq> ylims p" "xlims p \<noteq> zlims p" "ylims p \<noteq> zlims p"
      and live: "xlims p < next_ref m" "ylims p < next_ref m" "zlims p < next_ref m"
  shows "\<exists>m' p'. Parallelepiped_stretch np (fx, fy, fz) (m, p) = (None, (m', p')) \<and>
           p' = p\<lparr>xlims := xlims p', ylims := ylims p', zlims := zlims p'\<rparr> \<and>
           cells m' (xlims p') =
             (if 0 < num_val fx then Float64Array (num_val fx * xlo) (num_val fx * xhi)
              else if num_val fx < 0 then Float64Array (num_val fx * xhi) (num_val fx * xlo)
              else Float64Array xlo xhi) \<and>
           cells m' (ylims p') =
             (if 0 < num_val fy then Float64Array (num_val fy * ylo) (num_val fy * yhi)
              else if num_val fy < 0 then Float64Array (num_val fy * yhi) (num_val fy * ylo)
              else Float64Array ylo yhi) \<and>
           cells m' (zlims p') =
             (if 0 < num_val fz then Float64Array (num_val fz * zlo) (num_val fz * zhi)
              else if num_val fz < 0 then Float64Array (num_val fz * zhi) (num_val fz * zlo)
              else Float64Array zlo zhi) \<and>
           \<not> first_exceeds_second (cells m' (xlims p')) \<and>
           \<not> first_exceeds_second (cells m' (ylims p')) \<and>
           \<not> first_exceeds_second (cells m' (zlims p'))"
proof -
  from stretch_x_float_step [OF x live(1), of np fx]
  obtain m1 p1 where
    s1: "stretch_x np fx (m, p) = (None, (m1, p1))" and
    x1: "cells m1 (xlims p1) =
       (if 0 < num_val fx then Float64Array (num_val fx * xlo) (num_val fx * xhi)
        else if num_val fx < 0 then Float64Array (num_val fx * xhi) (num_val fx * xlo)
        else Float64Array xlo xhi)" and
    p1: "p1 = p\<lparr>xlims := xlims p1\<rparr>" and
    frame1: "\<And>r. r < next_ref m \<Longrightarrow> r \<noteq> xlims p \<Longrightarrow> cells m1 r = cells m r" and
    next1: "next_ref m \<le> next_ref m1" and xlive1: "xlims p1 < next_ref m1" and
    xnew1: "xlims p1 = xlims p \<or> next_ref m \<le> xlims p1"
    by blast
  have y_p1: "ylims p1 = ylims p" and z_p1: "zlims p1 = zlims p"
    by (subst p1, simp)+
  have y1: "cells m1 (ylims p1) = Float64Array ylo yhi"
    using frame1 [of "ylims p"] live(2) apart(1) y(1) y_p1 by simp
  have z1: "cells m1 (zlims p1) = Float64Array zlo zhi"
    using frame1 [of "zlims p"] live(3) apart(2) z(1) z_p1 by simp
  have ylive1: "ylims p1 < next_ref m1" and zlive1: "zlims p1 < next_ref m1"
    using live next1 y_p1 z_p1 by simp_all
  have xy1: "xlims p1 \<noteq> ylims p1" and xz1: "xlims p1 \<noteq> zlims p1"
    using xnew1 apart live y_p1 z_p1 by auto
  have yz1: "ylims p1 \<noteq> zlims p1"
    using apart y_p1 z_p1 by simp
  from stretch_y_float_step [OF y1 y(2) ylive1, of np fy]
  obtain m2 p2 where
    s2: "stretch_y np fy (m1, p1) = (None, (m2, p2))" and
    y2: "cells m2 (ylims p2) =
       (if 0 < num_val fy then Float64Array (num_val fy * ylo) (num_val fy * yhi)
        else if num_val fy < 0 then Float64Array (num_val fy * yhi) (num_val fy * ylo)
        else Float64Array ylo yhi)" and
    p2: "p2 = p1\<lparr>ylims := ylims p2\<rparr>" and
    frame2: "\<And>r. r < next_ref m1 \<Longrightarrow> r \<noteq> ylims p1 \<Longrightarrow> cells m2 r = cells m1 r" and
    next2: "next_ref m1 \<le> next_ref m2" and ylive2: "ylims p2 < next_ref m2" and
    ynew2: "ylims p2 = ylims p1 \<or> next_ref m1 \<le> ylims p2"
    by blast
  have x_p2: "xlims p2 = xlims p1" and z_p2: "zlims p2 = zlims p1"
    by (subst p2, simp)+
  have x2: "cells m2 (xlims p2) = cells m1 (xlims p1)"
    using frame2 [of "xlims p1"] xlive1 xy1 x_p2 by simp
  have z2: "cells m2 (zlims p2) = Float64Array zlo zhi"
    using frame2 [of "zlims p1"] zlive1 yz1 z1 z_p2 by simp
  have zlive2: "zlims p2 < next_ref m2" and xlive2: "xlims p2 < next_ref m2"
    using zlive1 xlive1 next2 x_p2 z_p2 by simp_all
  have xz2: "xlims p2 \<noteq> zlims p2"
    using xz1 x_p2 z_p2 by simp
  have yz2: "ylims p2 \<noteq> zlims p2"
    using ynew2 yz1 zlive1 z_p2 by auto
  from stretch_z_float_step [OF z2 z(2) zlive2, of np fz]
  obtain m3 p3 where
    s3: "stretch_z np fz (m2, p2) = (None, (m3, p3))" and
    z3: "cells m3 (zlims p3) =
       (if 0 < num_val fz then Float64Array (num_val fz * zlo) (num_val fz * zhi)
        else if num_val fz < 0 then Float64Array (num_val fz * zhi) (num_val fz * zlo)
        else Float64Array zlo zhi)" and
    p3: "p3 = p2\<lparr>zlims := zlims p3\<rparr>" and
    frame3: "\<And>r. r < next_ref m2 \<Longrightarrow> r \<noteq> zlims p2 \<Longrightarrow> cells m3 r = cells m2 r"
    by blast
  have x_p3: "xlims p3 = xlims p2" and y_p3: "ylims p3 = ylims p2"
    by (subst p3, simp)+
  have x3: "cells m3 (xlims p3) = cells m1 (xlims p1)"
    using frame3 [of "xlims p2"] xlive2 xz2 x2 x_p3 by simp
  have y3: "cells m3 (ylims p3) = cells m2 (ylims p2)"
    using frame3 [of "ylims p2"] ylive2 yz2 y_p3 by simp
  have run: "Parallelepiped_stretch np (fx, fy, fz) (m, p) = (None, (m3, p3))"
    by (simp only: Parallelepiped_stretch.simps and_then_def s1 s2 s3 prod.case option.case)
  have shape: "p3 = p\<lparr>xlims := xlims p3, ylims := ylims p3, zlims := zlims p3\<rparr>"
    by (subst p3, subst p2, subst p1) (simp add: x_p3 x_p2 y_p3)
  have ordered:
    "\<And>f lo hi :: real. lo \<le> hi \<Longrightarrow>
       \<not> first_exceeds_second
           (if 0 < f then Float64Array (f * lo) (f * hi)
            else if f < 0 then Float64Array (f * hi) (f * lo) else Float64Array lo hi)"
    by (auto simp add: mult_left_mono mult_left_mono_neg not_less)
  show ?thesis
    using run shape x3 y3 z3 x1 y2 ordered [OF x(2), of "num_val fx"]
      ordered [OF y(2), of "num_val fy"] ordered [OF z(2), of "num_val fz"]
    by (intro exI [of _ m3] exI [of _ p3]) simp
qed

theorem Parallelepiped_stretch_float_arrays_witness:
  "\<exists>m' p'. Parallelepiped_stretch SameKind (PyInt 2, PyInt 0, PyFloat (- 1))
              (example_float_arrays, example_box) = (None, (m', p')) \<and>
           cells m' (xlims p') = Float64Array 0 8 \<and>
           cells m' (ylims p') = Float64Array (- 2) 2 \<and>
           cells m' (zlims p') = Float64Array (- 6) 3"
proof -
  have "cells example_float_arrays (xlims example_box) = Float64Array 0 4" "(0::real) \<le> 4"
    "cells example_float_arrays (ylims example_box) = Float64Array (- 2) 2" "(- 2::real) \<le> 2"
    "cells example_float_arrays (zlims example_box) = Float64Array (- 3) 6" "(- 3::real) \<le> 6"
    "xlims example_box \<noteq> ylims example_box" "xlims example_box \<noteq> zlims example_box"
    "ylims example_box \<noteq> zlims example_box"
    "xlims example_box < next_ref example_float_arrays"
    "ylims example_box < next_ref example_float_arrays"
    "zlims example_box < next_ref example_float_arrays"
    by (simp_all add: example_float_arrays_def example_box_def)
  from Parallelepiped_stretch_float_arrays [OF this, of SameKind "PyInt 2" "PyInt 0" "PyFloat (- 1)"]
  have "\<exists>m' p'. Parallelepiped_stretch SameKind (PyInt 2, PyInt 0, PyFloat (- 1))
              (example_float_arrays, example_box) = (None, (m', p')) \<and>
           p' = example_box\<lparr>xlims := xlims p', ylims := ylims p', zlims := zlims p'\<rparr> \<and>
           cells m' (xlims p') = Float64Array 0 8 \<and>
           cells m' (ylims p') = Float64Array (- 2) 2 \<and>
           cells m' (zlims p') = Float64Array (- 6) 3 \<and>
           \<not> first_exceeds_second (cells m' (xlims p')) \<and>
           \<not> first_exceeds_second (cells m' (ylims p')) \<and>
           \<not> first_exceeds_second (cells m' (zlims p'))"
    by (simp del: Parallelepiped_stretch.simps)
  then show ?thesis by blast
qed

text \<open>
  The axes of a parallelepiped are independent only while their arrays are distinct.
  After \<^verbatim>\<open>pp.ylims = pp.xlims\<close>, which the setter accepts, both attributes hold one
  array, and \<^verbatim>\<open>pp.stretch([2, 0, 0])\<close> rescales the y bounds from \<open>[0, 4]\<close> to
  \<open>[0, 8]\<close> although the y factor is zero.
\<close>

theorem Parallelepiped_stretch_shared_array:
  "ylims_setter (xlims example_box) (example_arrays, example_box) =
     (None, (example_arrays, example_box\<lparr>ylims := xlims example_box\<rparr>)) \<and>
   Parallelepiped_stretch np (PyInt 2, PyInt 0, PyInt 0)
       (example_arrays, example_box\<lparr>ylims := xlims example_box\<rparr>) =
     (None, (example_arrays\<lparr>cells := (cells example_arrays)(xlims example_box := Int64Array 0 8)\<rparr>,
             example_box\<lparr>ylims := xlims example_box\<rparr>)) \<and>
   cells example_arrays (ylims (example_box\<lparr>ylims := xlims example_box\<rparr>)) = Int64Array 0 4 \<and>
   cells (example_arrays\<lparr>cells := (cells example_arrays)(xlims example_box := Int64Array 0 8)\<rparr>)
     (ylims (example_box\<lparr>ylims := xlims example_box\<rparr>)) = Int64Array 0 8"
  by (simp add: ylims_setter_def xlims_setter_def and_then_def stretch_x_def stretch_y_def
        stretch_z_def augmented_assign_def example_arrays_def example_box_def)

end
